theory Spec2Isabelle
  imports Main
begin

section \<open>Strings of the bot\<close>

text \<open>
  The bot is a JavaScript program: its strings are sequences of UTF-16 code units, and
  its labels are Cyrillic. A string is modelled as the list of its code units, each a
  natural number; an ASCII literal of the source is written through \<open>ascii\<close>, a
  Cyrillic one as the list of its code units.
\<close>

type_synonym jstr = "nat list"

definition ascii :: "string \<Rightarrow> jstr" where
  "ascii s = map of_char s"

text \<open>The line feed, the only code unit the class \<open>[^\n]\<close> excludes.\<close>

definition LF :: nat where
  "LF = 10"

text \<open>
  The code units matched by \<open>\s\<close> in a regular expression and removed by
  \<open>String.prototype.trim\<close>: ECMAScript's WhiteSpace and LineTerminator.
\<close>

definition is_space :: "nat \<Rightarrow> bool" where
  "is_space c = (c = 9 \<or> c = 10 \<or> c = 11 \<or> c = 12 \<or> c = 13 \<or> c = 32 \<or> c = 160 \<or>
     c = 5760 \<or> (8192 \<le> c \<and> c \<le> 8202) \<or> c = 8232 \<or> c = 8233 \<or> c = 8239 \<or>
     c = 8287 \<or> c = 12288 \<or> c = 65279)"

definition trim :: "jstr \<Rightarrow> jstr" where
  "trim s = rev (dropWhile is_space (rev (dropWhile is_space s)))"

text \<open>\<open>Array.prototype.join\<close> on a list of strings.\<close>

fun join :: "jstr \<Rightarrow> jstr list \<Rightarrow> jstr" where
  "join sep [] = []"
| "join sep [x] = x"
| "join sep (x # y # ys) = x @ sep @ join sep (y # ys)"

text \<open>\<open>String.prototype.split\<close> on a one-unit separator: the pieces between its occurrences.\<close>

fun split_on :: "nat \<Rightarrow> jstr \<Rightarrow> jstr list" where
  "split_on sep [] = [[]]"
| "split_on sep (c # cs) =
     (if c = sep then [] # split_on sep cs
      else (case split_on sep cs of
              [] \<Rightarrow> [[c]]
            | p # ps \<Rightarrow> (c # p) # ps))"

text \<open>The decimal numeral of a natural number, as template literals print it.\<close>

fun show_nat :: "nat \<Rightarrow> jstr" where
  "show_nat n = (if n < 10 then [48 + n] else show_nat (n div 10) @ [48 + n mod 10])"

declare show_nat.simps [simp del]

definition show_int :: "int \<Rightarrow> jstr" where
  "show_int i = (if i < 0 then 45 # show_nat (nat (- i)) else show_nat (nat i))"

text \<open>\<open>padStart(2, '0')\<close>.\<close>

definition padStart2 :: "jstr \<Rightarrow> jstr" where
  "padStart2 s = replicate (2 - length s) 48 @ s"

section \<open>Configuration\<close>

text \<open>
  The two settings read from the environment: the text of \<open>APPROVERS\<close> and the number
  \<open>Number(REQUIRED_APPROVALS)\<close>. The number is taken as an integer (a text that is not a
  number gives NaN, which \<open>|| 1\<close> replaces like 0).
\<close>

record config =
  APPROVERS :: jstr
  REQUIRED_APPROVALS :: int

definition APPROVER_LIST :: "config \<Rightarrow> jstr list" where
  "APPROVER_LIST cfg = filter (\<lambda>s. s \<noteq> []) (map trim (split_on 44 (APPROVERS cfg)))"

definition APPROVER_SET :: "config \<Rightarrow> jstr set" where
  "APPROVER_SET cfg = set (APPROVER_LIST cfg)"

definition REQUIRED :: "config \<Rightarrow> int" where
  "REQUIRED cfg = (if REQUIRED_APPROVALS cfg = 0 then 1 else REQUIRED_APPROVALS cfg)"

definition PING_TIMEOUT_MS :: nat where
  "PING_TIMEOUT_MS = 2 * 60 * 60 * 1000"

text \<open>
  \<open>monthSheetName\<close>: the year and the month index (0 to 11) of the Helsinki wall clock,
  which the caller reads from the environment, printed as year, a dash and the
  two-digit month.
\<close>

definition monthSheetName :: "nat \<times> nat \<Rightarrow> jstr" where
  "monthSheetName ym = show_nat (fst ym) @ [45] @ padStart2 (show_nat (snd ym + 1))"

section \<open>Parsing a submission\<close>

text \<open>
  The regular expressions of \<open>parsePayload\<close> are built with the flag \<open>i\<close> and without
  the flag \<open>u\<close>: two code units match when their canonical forms agree. The canonical
  form of a unit is its upper case when that is one unit of the Basic Multilingual
  Plane, except that a unit from 128 on never takes a form below 128; otherwise it is
  the unit itself. The table holds the units that change (Unicode 14), as runs
  \<open>(first, last, step, form of the first)\<close> in ascending order: the units \<open>first\<close>,
  \<open>first + step\<close>, ... up to \<open>last\<close> take the forms that lie as far from the form of the
  first. It is kept in two parts, below and from U+0400, so that a look-up reads one.
  Among them are U+1C82 to U+1C85, which take the forms of three letters of the labels.
\<close>

definition case_table_low :: "(nat \<times> nat \<times> nat \<times> nat) list" where
  "case_table_low =
     [(97, 122, 1, 65), (181, 181, 1, 924), (224, 246, 1, 192), (248, 254, 1, 216), (255,
      255, 1, 376), (257, 303, 2, 256), (307, 311, 2, 306), (314, 328, 2, 313), (331, 375,
      2, 330), (378, 382, 2, 377), (384, 384, 1, 579), (387, 389, 2, 386), (392, 392, 1,
      391), (396, 396, 1, 395), (402, 402, 1, 401), (405, 405, 1, 502), (409, 409, 1, 408),
      (410, 410, 1, 573), (414, 414, 1, 544), (417, 421, 2, 416), (424, 424, 1, 423), (429,
      429, 1, 428), (432, 432, 1, 431), (436, 438, 2, 435), (441, 441, 1, 440), (445, 445,
      1, 444), (447, 447, 1, 503), (453, 453, 1, 452), (454, 454, 1, 452), (456, 456, 1,
      455), (457, 457, 1, 455), (459, 459, 1, 458), (460, 460, 1, 458), (462, 476, 2, 461),
      (477, 477, 1, 398), (479, 495, 2, 478), (498, 498, 1, 497), (499, 499, 1, 497), (501,
      501, 1, 500), (505, 543, 2, 504), (547, 563, 2, 546), (572, 572, 1, 571), (575, 576,
      1, 11390), (578, 578, 1, 577), (583, 591, 2, 582), (592, 592, 1, 11375), (593, 593, 1,
      11373), (594, 594, 1, 11376), (595, 595, 1, 385), (596, 596, 1, 390), (598, 599, 1,
      393), (601, 601, 1, 399), (603, 603, 1, 400), (604, 604, 1, 42923), (608, 608, 1,
      403), (609, 609, 1, 42924), (611, 611, 1, 404), (613, 613, 1, 42893), (614, 614, 1,
      42922), (616, 616, 1, 407), (617, 617, 1, 406), (618, 618, 1, 42926), (619, 619, 1,
      11362), (620, 620, 1, 42925), (623, 623, 1, 412), (625, 625, 1, 11374), (626, 626, 1,
      413), (629, 629, 1, 415), (637, 637, 1, 11364), (640, 640, 1, 422), (642, 642, 1,
      42949), (643, 643, 1, 425), (647, 647, 1, 42929), (648, 648, 1, 430), (649, 649, 1,
      580), (650, 651, 1, 433), (652, 652, 1, 581), (658, 658, 1, 439), (669, 669, 1,
      42930), (670, 670, 1, 42928), (837, 837, 1, 921), (881, 883, 2, 880), (887, 887, 1,
      886), (891, 893, 1, 1021), (940, 940, 1, 902), (941, 943, 1, 904), (945, 961, 1, 913),
      (962, 962, 1, 931), (963, 971, 1, 931), (972, 972, 1, 908), (973, 974, 1, 910), (976,
      976, 1, 914), (977, 977, 1, 920), (981, 981, 1, 934), (982, 982, 1, 928), (983, 983,
      1, 975), (985, 1007, 2, 984), (1008, 1008, 1, 922), (1009, 1009, 1, 929), (1010, 1010,
      1, 1017), (1011, 1011, 1, 895), (1013, 1013, 1, 917), (1016, 1016, 1, 1015), (1019,
      1019, 1, 1018)]"

definition case_table_high :: "(nat \<times> nat \<times> nat \<times> nat) list" where
  "case_table_high =
     [(1072, 1103, 1, 1040), (1104, 1119, 1, 1024), (1121, 1153, 2, 1120), (1163, 1215, 2,
      1162), (1218, 1230, 2, 1217), (1231, 1231, 1, 1216), (1233, 1327, 2, 1232), (1377,
      1414, 1, 1329), (4304, 4346, 1, 7312), (4349, 4351, 1, 7357), (5112, 5117, 1, 5104),
      (7296, 7296, 1, 1042), (7297, 7297, 1, 1044), (7298, 7298, 1, 1054), (7299, 7300, 1,
      1057), (7301, 7301, 1, 1058), (7302, 7302, 1, 1066), (7303, 7303, 1, 1122), (7304,
      7304, 1, 42570), (7545, 7545, 1, 42877), (7549, 7549, 1, 11363), (7566, 7566, 1,
      42950), (7681, 7829, 2, 7680), (7835, 7835, 1, 7776), (7841, 7935, 2, 7840), (7936,
      7943, 1, 7944), (7952, 7957, 1, 7960), (7968, 7975, 1, 7976), (7984, 7991, 1, 7992),
      (8000, 8005, 1, 8008), (8017, 8023, 2, 8025), (8032, 8039, 1, 8040), (8048, 8049, 1,
      8122), (8050, 8053, 1, 8136), (8054, 8055, 1, 8154), (8056, 8057, 1, 8184), (8058,
      8059, 1, 8170), (8060, 8061, 1, 8186), (8112, 8113, 1, 8120), (8126, 8126, 1, 921),
      (8144, 8145, 1, 8152), (8160, 8161, 1, 8168), (8165, 8165, 1, 8172), (8526, 8526, 1,
      8498), (8560, 8575, 1, 8544), (8580, 8580, 1, 8579), (9424, 9449, 1, 9398), (11312,
      11359, 1, 11264), (11361, 11361, 1, 11360), (11365, 11365, 1, 570), (11366, 11366, 1,
      574), (11368, 11372, 2, 11367), (11379, 11379, 1, 11378), (11382, 11382, 1, 11381),
      (11393, 11491, 2, 11392), (11500, 11502, 2, 11499), (11507, 11507, 1, 11506), (11520,
      11557, 1, 4256), (11559, 11559, 1, 4295), (11565, 11565, 1, 4301), (42561, 42605, 2,
      42560), (42625, 42651, 2, 42624), (42787, 42799, 2, 42786), (42803, 42863, 2, 42802),
      (42874, 42876, 2, 42873), (42879, 42887, 2, 42878), (42892, 42892, 1, 42891), (42897,
      42899, 2, 42896), (42900, 42900, 1, 42948), (42903, 42921, 2, 42902), (42933, 42947,
      2, 42932), (42952, 42954, 2, 42951), (42961, 42961, 1, 42960), (42967, 42969, 2,
      42966), (42998, 42998, 1, 42997), (43859, 43859, 1, 42931), (43888, 43967, 1, 5024),
      (65345, 65370, 1, 65313)]"

fun canon_lookup :: "(nat \<times> nat \<times> nat \<times> nat) list \<Rightarrow> nat \<Rightarrow> nat" where
  "canon_lookup [] c = c"
| "canon_lookup ((lo, hi, step, up) # es) c =
     (if c < lo then c
      else if c \<le> hi \<and> (c - lo) mod step = 0 then up + (c - lo)
      else canon_lookup es c)"

definition canonicalize :: "nat \<Rightarrow> nat" where
  "canonicalize c = canon_lookup (if c < 1024 then case_table_low else case_table_high) c"

text \<open>The pattern's literal part matches a prefix of the text, ignoring case.\<close>

fun ci_prefix :: "jstr \<Rightarrow> jstr \<Rightarrow> bool" where
  "ci_prefix [] t = True"
| "ci_prefix (p # ps) [] = False"
| "ci_prefix (p # ps) (c # cs) = (canonicalize p = canonicalize c \<and> ci_prefix ps cs)"

text \<open>
  The rest of the pattern, \<open>\s*([^\n]+)\<close>, matched at the head of the text with the
  backtracking of the engine: the greedy \<open>\s*\<close> first takes the white space unit and
  goes on; when the rest then fails, it gives the unit back and the group has to start
  there. The group is greedy: it runs to the next line feed. The result is the group.
\<close>

fun match_tail :: "jstr \<Rightarrow> jstr option" where
  "match_tail [] = None"
| "match_tail (c # cs) =
     (if is_space c then
        (case match_tail cs of
           Some g \<Rightarrow> Some g
         | None \<Rightarrow> if c \<noteq> LF then Some (takeWhile (\<lambda>x. x \<noteq> LF) (c # cs)) else None)
      else Some (takeWhile (\<lambda>x. x \<noteq> LF) (c # cs)))"

definition match_here :: "jstr \<Rightarrow> jstr \<Rightarrow> jstr option" where
  "match_here label t =
     (if ci_prefix (label @ [58]) t then match_tail (drop (length label + 1) t) else None)"

text \<open>\<open>text.match(re)\<close>: the match at the leftmost position that has one.\<close>

fun regex_match :: "jstr \<Rightarrow> jstr \<Rightarrow> jstr option" where
  "regex_match label [] = match_here label []"
| "regex_match label (c # cs) =
     (case match_here label (c # cs) of
        Some g \<Rightarrow> Some g
      | None \<Rightarrow> regex_match label cs)"

definition grab :: "jstr \<Rightarrow> jstr \<Rightarrow> jstr" where
  "grab label t = trim (case regex_match label t of None \<Rightarrow> [] | Some g \<Rightarrow> g)"

text \<open>The five labels, in the source's order: ticket, violation, reason, amount, operator.\<close>

definition label_ticket :: jstr where
  "label_ticket = [1058, 1080, 1082, 1077, 1090]"

definition label_violation :: jstr where
  "label_violation = [1053, 1072, 1088, 1091, 1096, 1077, 1085, 1080, 1077]"

definition label_reason :: jstr where
  "label_reason = [1055, 1088, 1080, 1095, 1080, 1085, 1072]"

definition label_amount :: jstr where
  "label_amount = [1057, 1091, 1084, 1084, 1072]"

definition label_operator :: jstr where
  "label_operator = [1054, 1087, 1077, 1088, 1072, 1090, 1086, 1088]"

record payload =
  ticket :: jstr
  violation :: jstr
  reason :: jstr
  amount :: jstr
  operator :: jstr

definition parsePayload :: "jstr \<Rightarrow> payload option" where
  "parsePayload t =
     (if t = [] then None
      else
        let tk = grab label_ticket t;
            vi = grab label_violation t;
            re = grab label_reason t;
            am = grab label_amount t;
            op = grab label_operator t
        in if tk = [] \<or> vi = [] \<or> re = [] then None
           else Some \<lparr>ticket = tk, violation = vi, reason = re, amount = am, operator = op\<rparr>)"

section \<open>Data model\<close>

text \<open>A Telegram user as the transport delivers it; the three names may be missing.\<close>

record tg_user =
  user_id :: int
  first_name :: "jstr option"
  last_name :: "jstr option"
  username :: "jstr option"

text \<open>The snapshot \<open>prof\<close> stored for an approver: \<open>{ id, username, name }\<close>.\<close>

record profile =
  prof_id :: int
  prof_username :: jstr
  prof_name :: jstr

text \<open>
  One request, the value stored in \<open>ticketsState\<close>: the parsed fields spread into the
  object, then the chat, the approvals (a JavaScript \<open>Map\<close>: an association list in
  insertion order), the voters (a \<open>Set\<close>), the two flags and the comment, which the
  object lacks until a reply sets it.
\<close>

record ticket_state = payload +
  chatId :: int
  approvals :: "(int \<times> profile) list"
  voters :: "int set"
  resolved :: bool
  rejected :: bool
  rejectComment :: "jstr option"

record pending =
  promptMsgId :: int
  ticketMsgId :: int

text \<open>
  The two process-wide maps. The key of \<open>pendingComments\<close> is the text
  \<open>chatId:userId\<close>; two numerals joined by a colon determine both numbers, so the key is
  modelled as the pair.
\<close>

record bot_state =
  ticketsState :: "int \<rightharpoonup> ticket_state"
  pendingComments :: "(int \<times> int) \<rightharpoonup> pending"

text \<open>\<open>Map.prototype.set\<close>: a present key keeps its place, a new key goes last.\<close>

fun map_set :: "'k \<Rightarrow> 'v \<Rightarrow> ('k \<times> 'v) list \<Rightarrow> ('k \<times> 'v) list" where
  "map_set k v [] = [(k, v)]"
| "map_set k v (e # es) = (if fst e = k then (k, v) # es else e # map_set k v es)"

definition payload_of :: "ticket_state \<Rightarrow> payload" where
  "payload_of st = \<lparr>ticket = ticket st, violation = violation st, reason = reason st,
     amount = amount st, operator = operator st\<rparr>"

definition fresh_ticket :: "int \<Rightarrow> payload \<Rightarrow> ticket_state" where
  "fresh_ticket chat d = \<lparr>ticket = ticket d, violation = violation d, reason = reason d,
     amount = amount d, operator = operator d, chatId = chat, approvals = [], voters = {},
     resolved = False, rejected = False, rejectComment = None\<rparr>"

section \<open>Names and mentions\<close>

text \<open>The name used when a user has neither first nor last name (a Cyrillic word).\<close>

definition default_name :: jstr where
  "default_name = [1089, 1086, 1090, 1088, 1091, 1076, 1085, 1080, 1082]"

definition fullName :: "jstr option \<Rightarrow> jstr option \<Rightarrow> jstr" where
  "fullName fn ln =
     (let j = join [32] (filter (\<lambda>s. s \<noteq> []) (List.map_filter (\<lambda>x. x) [fn, ln]))
      in if j = [] then default_name else j)"

definition user_link :: "int \<Rightarrow> jstr \<Rightarrow> jstr" where
  "user_link i n = ascii ''<a href=\"tg://user?id='' @ show_int i @ ascii ''\">'' @ n @ ascii ''</a>''"

text \<open>
  \<open>mentionByProfile\<close> is called on a user of the transport and on a stored profile; a
  profile has no \<open>first_name\<close> and no \<open>last_name\<close>, so its link carries the default name.
\<close>

definition mentionByProfile :: "tg_user \<Rightarrow> jstr" where
  "mentionByProfile u =
     (case username u of
        Some n \<Rightarrow> if n \<noteq> [] then 64 # n else user_link (user_id u) (fullName (first_name u) (last_name u))
      | None \<Rightarrow> user_link (user_id u) (fullName (first_name u) (last_name u)))"

definition mentionByProfile_prof :: "profile \<Rightarrow> jstr" where
  "mentionByProfile_prof p =
     (if prof_username p \<noteq> [] then 64 # prof_username p
      else user_link (prof_id p) (fullName None None))"

section \<open>Effects\<close>

text \<open>
  The handlers talk to the transport, to the spreadsheet and to the timer. Each call is
  recorded as an effect, in the order of the calls. The texts sent are Cyrillic
  templates; a text is recorded as the template and the values put into it.
  The handlers are asynchronous functions. The handler of \<open>callback_query\<close> writes to
  the request after some of its \<open>await\<close>s, so it is modelled twice: first run alone from
  its first line to its last, with every call to the transport returning (\<open>approve_vote\<close>,
  \<open>reject_vote\<close>, \<open>callback_query\<close>), then at the grain of its \<open>await\<close>s, where handlers
  overlap and awaited calls may throw (\<open>dispatch\<close>, \<open>resume\<close>, \<open>acts\<close>); the first is
  proved to be the second with one handler in flight. The handlers of \<open>message\<close> and of
  the timer do all their reads and writes before their first \<open>await\<close>.
\<close>

text \<open>
  The four answers to a callback query: no right to approve, already voted (both shown
  as alerts), approval counted, and the request for the reason of a reject.
\<close>

datatype notice = NoRights | AlreadyVoted | ApprovalCounted | AskRejectReason

text \<open>The row given to \<open>addRow\<close>, one field per column of \<open>REQUIRED_HEADERS\<close>.\<close>

record row =
  col_ticket :: jstr
  col_violation :: jstr
  col_reason :: jstr
  col_amount :: jstr
  col_operator :: jstr
  col_status :: jstr
  col_approvers :: jstr
  col_date :: jstr

text \<open>
  The texts, by the place that builds them:
  \<^item> \<open>FormatHelp\<close>: the expected format, sent for a submission that does not parse;
  \<^item> \<open>NewCard\<close>: \<open>makeCardText\<close> of the parsed fields, with the approvers' line and the
    number of approvals needed, posted with the two buttons;
  \<^item> \<open>ProgressCard\<close>: \<open>makeCardText\<close> of the request with the progress, the approvers'
    line and the list of those who approved;
  \<^item> \<open>ApprovedSummary\<close>: the ticket, the names of the approvers, the sheet written to and
    the approvers told for information;
  \<^item> \<open>LedgerError\<close>: the error of the ledger;
  \<^item> \<open>RejectPrompt\<close>: the mention of the voter and the ticket, sent with \<open>force_reply\<close>;
  \<^item> \<open>RejectedAwaiting\<close>: the ticket and the mention of the voter whose comment is awaited;
  \<^item> \<open>RejectedFinal\<close>: the ticket, the comment (or a dash) and the mention of its author;
  \<^item> \<open>Reminder\<close>: \<open>makeCardText\<close> of the request with the approvers asked to confirm.
\<close>

datatype body =
    FormatHelp
  | NewCard payload "jstr list" int
  | ProgressCard payload jstr "jstr list" jstr
  | ApprovedSummary jstr jstr jstr jstr
  | LedgerError jstr
  | RejectPrompt jstr jstr
  | RejectedAwaiting jstr jstr
  | RejectedFinal jstr jstr jstr
  | Reminder payload "jstr list"

text \<open>
  The calls: \<open>answerCallbackQuery\<close> (query id, text, \<open>show_alert\<close>), \<open>sendMessage\<close> (chat,
  text), \<open>editMessageText\<close> (chat, message, text), \<open>deleteMessage\<close> (chat, message),
  \<open>getOrCreateMonthlySheet\<close> with \<open>ensureHeaders\<close> (the title asked for), \<open>addRow\<close> (the
  sheet's title, the row), \<open>console.error\<close> and \<open>setTimeout\<close> (the request and the chat its
  function holds, the delay in milliseconds).
\<close>

datatype effect =
    AnswerCallbackQuery jstr notice bool
  | SendMessage int body
  | EditMessageText int int body
  | DeleteMessage int int
  | GetOrCreateMonthlySheet jstr
  | AddRow jstr row
  | ConsoleError jstr
  | SetTimeout int int nat

section \<open>Voting\<close>

text \<open>
  What the environment answers during one vote: the error, if any, raised while the
  month's sheet is fetched or its header checked; the error, if any, raised by the
  append; the Helsinki year and month at the two calls of \<open>monthSheetName\<close>; the text of
  \<open>nowHelsinkiString\<close>; the identifier given to the prompt sent after a reject.
\<close>

record vote_env =
  sheet_error :: "jstr option"
  addRow_error :: "jstr option"
  month_at_open :: "nat \<times> nat"
  month_at_summary :: "nat \<times> nat"
  now_string :: jstr
  prompt_id :: int

text \<open>A callback query: its id, the message it hangs on (identifier and chat) when there is one, the sender and the button's data.\<close>

record callback =
  query_id :: jstr
  cb_message :: "(int \<times> int) option"
  cb_from :: tg_user
  cb_data :: jstr

text \<open>The status written to the sheet (a Cyrillic word) and the dash shown for an empty text.\<close>

definition status_approved :: jstr where
  "status_approved = [1054, 1076, 1086, 1073, 1088, 1077, 1085, 1086]"

definition dash :: jstr where
  "dash = [8212]"

definition or_else :: "jstr \<Rightarrow> jstr \<Rightarrow> jstr" where
  "or_else a b = (if a \<noteq> [] then a else b)"

definition approver_row :: "vote_env \<Rightarrow> ticket_state \<Rightarrow> row" where
  "approver_row env st = \<lparr>col_ticket = ticket st, col_violation = violation st,
     col_reason = reason st, col_amount = amount st, col_operator = operator st,
     col_status = status_approved,
     col_approvers = join (ascii '', '')
       (map (\<lambda>a. or_else (prof_username a) (prof_name a)) (map snd (approvals st))),
     col_date = now_string env\<rparr>"

text \<open>The approvers of the allow-list that have no approval under their name.\<close>

definition not_yet_approved :: "config \<Rightarrow> ticket_state \<Rightarrow> jstr list" where
  "not_yet_approved cfg st =
     filter (\<lambda>u. \<not> list_ex (\<lambda>p. prof_username p = u) (map snd (approvals st))) (APPROVER_LIST cfg)"

text \<open>
  The block run once the approvals reach the quorum: the \<open>try\<close> fetches the sheet,
  appends the row and rewrites the card; the \<open>catch\<close> logs the error and reports it
  to the chat. Here, and in the two branches below, the handler runs alone: no other
  handler starts while it awaits, and its calls to the transport return.
\<close>

definition finalize :: "config \<Rightarrow> vote_env \<Rightarrow> int \<Rightarrow> int \<Rightarrow> ticket_state \<Rightarrow> effect list" where
  "finalize cfg env chat msgId st =
     GetOrCreateMonthlySheet (monthSheetName (month_at_open env)) #
     (case sheet_error env of
        Some e \<Rightarrow> [ConsoleError e, SendMessage chat (LedgerError e)]
      | None \<Rightarrow>
          AddRow (monthSheetName (month_at_open env)) (approver_row env st) #
          (case addRow_error env of
             Some e \<Rightarrow> [ConsoleError e, SendMessage chat (LedgerError e)]
           | None \<Rightarrow>
               [EditMessageText chat msgId
                  (ApprovedSummary (ticket st)
                     (join (ascii '', '')
                        (map (\<lambda>a. if prof_username a \<noteq> [] then 64 # prof_username a else prof_name a)
                           (map snd (approvals st))))
                     (monthSheetName (month_at_summary env))
                     (join (ascii '', '') (map (\<lambda>u. 64 # u) (not_yet_approved cfg st))))]))"

definition approve_vote ::
  "config \<Rightarrow> vote_env \<Rightarrow> jstr \<Rightarrow> int \<Rightarrow> int \<Rightarrow> profile \<Rightarrow> ticket_state \<Rightarrow> ticket_state \<times> effect list" where
  "approve_vote cfg env qid chat msgId prof st =
     (let st1 = st\<lparr>voters := insert (prof_id prof) (voters st),
                    approvals := map_set (prof_id prof) prof (approvals st)\<rparr>;
          approvedList = or_else (join (ascii '', '') (map mentionByProfile_prof (map snd (approvals st1)))) dash;
          progress = show_nat (length (approvals st1)) @ [47] @ show_int (REQUIRED cfg);
          e1 = [AnswerCallbackQuery qid ApprovalCounted False,
                EditMessageText chat msgId
                  (ProgressCard (payload_of st1) progress (APPROVER_LIST cfg) approvedList)]
      in if REQUIRED cfg \<le> int (length (approvals st1))
         then (st1\<lparr>resolved := True\<rparr>, e1 @ finalize cfg env chat msgId (st1\<lparr>resolved := True\<rparr>))
         else (st1, e1))"

definition reject_vote ::
  "vote_env \<Rightarrow> jstr \<Rightarrow> int \<Rightarrow> int \<Rightarrow> tg_user \<Rightarrow> ticket_state \<Rightarrow> ticket_state \<times> effect list" where
  "reject_vote env qid chat msgId user st =
     (st\<lparr>voters := insert (user_id user) (voters st), rejected := True, resolved := True\<rparr>,
      [AnswerCallbackQuery qid AskRejectReason False,
       SendMessage chat (RejectPrompt (mentionByProfile user) (ticket st)),
       EditMessageText chat msgId (RejectedAwaiting (ticket st) (mentionByProfile user))])"

text \<open>\<open>user.username || ''\<close> and the profile \<open>{ id, username, name: fullName(user) }\<close>.\<close>

definition username_of :: "tg_user \<Rightarrow> jstr" where
  "username_of u = (case username u of None \<Rightarrow> [] | Some n \<Rightarrow> n)"

definition profile_of :: "tg_user \<Rightarrow> profile" where
  "profile_of u = \<lparr>prof_id = user_id u, prof_username = username_of u,
     prof_name = fullName (first_name u) (last_name u)\<rparr>"

text \<open>
  The handler of \<open>callback_query\<close>. The guards come in the source's order: a query
  without message or with a zero identifier, an unknown or resolved request, a sender
  outside a non-empty allow-list, a sender who has voted. The two tests of the data
  exclude each other, so the second is the \<open>else\<close> of the first.
\<close>

definition callback_query :: "config \<Rightarrow> vote_env \<Rightarrow> callback \<Rightarrow> bot_state \<Rightarrow> bot_state \<times> effect list" where
  "callback_query cfg env q s =
     (case cb_message q of
        None \<Rightarrow> (s, [])
      | Some (msgId, chat) \<Rightarrow>
          if msgId = 0 \<or> chat = 0 then (s, [])
          else
            (case ticketsState s msgId of
               None \<Rightarrow> (s, [])
             | Some st \<Rightarrow>
                 if resolved st then (s, [])
                 else
                   let user = cb_from q;
                       userId = user_id user;
                       uname = username_of user;
                       prof = profile_of user
                   in if APPROVER_SET cfg \<noteq> {} \<and> uname \<notin> APPROVER_SET cfg
                      then (s, [AnswerCallbackQuery (query_id q) NoRights True])
                      else if userId \<in> voters st
                      then (s, [AnswerCallbackQuery (query_id q) AlreadyVoted True])
                      else if cb_data q = ascii ''approve''
                      then (let (st', es) = approve_vote cfg env (query_id q) chat msgId prof st
                            in (s\<lparr>ticketsState := (ticketsState s)(msgId \<mapsto> st')\<rparr>, es))
                      else if cb_data q = ascii ''reject''
                      then (let (st', es) = reject_vote env (query_id q) chat msgId user st
                            in (s\<lparr>ticketsState := (ticketsState s)(msgId \<mapsto> st'),
                                  pendingComments := (pendingComments s)((chat, userId) \<mapsto>
                                    \<lparr>promptMsgId = prompt_id env, ticketMsgId = msgId\<rparr>)\<rparr>, es))
                      else (s, [])))"

section \<open>Replies\<close>

record tg_message =
  msg_chat :: int
  msg_from :: tg_user
  msg_id :: int
  reply_to :: "int option"
  msg_text :: "jstr option"

text \<open>The handler of \<open>message\<close>: a reply to the stored prompt by the voter who rejected.\<close>

definition on_message :: "tg_message \<Rightarrow> bot_state \<Rightarrow> bot_state \<times> effect list" where
  "on_message m s =
     (let key = (msg_chat m, user_id (msg_from m))
      in case pendingComments s key of
           None \<Rightarrow> (s, [])
         | Some w \<Rightarrow>
             if reply_to m \<noteq> Some (promptMsgId w) then (s, [])
             else
               (case ticketsState s (ticketMsgId w) of
                  None \<Rightarrow> (s\<lparr>pendingComments := (pendingComments s)(key := None)\<rparr>, [])
                | Some st \<Rightarrow>
                    let c = trim (case msg_text m of None \<Rightarrow> [] | Some t \<Rightarrow> t)
                    in (s\<lparr>ticketsState := (ticketsState s)(ticketMsgId w \<mapsto> st\<lparr>rejectComment := Some c\<rparr>),
                          pendingComments := (pendingComments s)(key := None)\<rparr>,
                        [EditMessageText (msg_chat m) (ticketMsgId w)
                           (RejectedFinal (ticket st) (or_else c dash) (mentionByProfile (msg_from m))),
                         DeleteMessage (msg_chat m) (promptMsgId w),
                         DeleteMessage (msg_chat m) (msg_id m)])))"

section \<open>Submissions and reminders\<close>

text \<open>
  The handler of the submission tag. It gets the chat, the text captured after the tag
  (when the match has one) and the identifier the transport gives to the card it posts.
\<close>

definition on_submission :: "config \<Rightarrow> int \<Rightarrow> jstr option \<Rightarrow> int \<Rightarrow> bot_state \<Rightarrow> bot_state \<times> effect list" where
  "on_submission cfg chat cap sent_id s =
     (case parsePayload (trim (case cap of None \<Rightarrow> [] | Some t \<Rightarrow> t)) of
        None \<Rightarrow> (s, [SendMessage chat FormatHelp])
      | Some d \<Rightarrow>
          (s\<lparr>ticketsState := (ticketsState s)(sent_id \<mapsto> fresh_ticket chat d)\<rparr>,
           [SendMessage chat (NewCard d (APPROVER_LIST cfg) (REQUIRED cfg)),
            SetTimeout sent_id chat PING_TIMEOUT_MS]))"

text \<open>The function given to \<open>setTimeout\<close>, run when the timer of the request fires.\<close>

definition on_timeout :: "config \<Rightarrow> int \<Rightarrow> int \<Rightarrow> bot_state \<Rightarrow> bot_state \<times> effect list" where
  "on_timeout cfg sent_id chat s =
     (case ticketsState s sent_id of
        None \<Rightarrow> (s, [])
      | Some st \<Rightarrow>
          if resolved st then (s, [])
          else
            let pending = not_yet_approved cfg st
            in if pending = [] then (s, [])
               else (s, [SendMessage chat (Reminder (payload_of st) pending)]))"

section \<open>Runs\<close>

text \<open>
  The events the bot handles, each with what the environment answers to it, and the
  runs in which each handler has returned before the next event is dispatched.
\<close>

datatype event =
    VoteCast vote_env callback
  | InteractiveReply tg_message
  | NewSubmission int "jstr option" int
  | TimerFires int int

fun handle :: "config \<Rightarrow> event \<Rightarrow> bot_state \<Rightarrow> bot_state \<times> effect list" where
  "handle cfg (VoteCast env q) s = callback_query cfg env q s"
| "handle cfg (InteractiveReply m) s = on_message m s"
| "handle cfg (NewSubmission chat cap sent_id) s = on_submission cfg chat cap sent_id s"
| "handle cfg (TimerFires sent_id chat) s = on_timeout cfg sent_id chat s"

fun run :: "config \<Rightarrow> event list \<Rightarrow> bot_state \<Rightarrow> bot_state \<times> effect list" where
  "run cfg [] s = (s, [])"
| "run cfg (ev # evs) s =
     (let (s1, e1) = handle cfg ev s;
          (s2, e2) = run cfg evs s1
      in (s2, e1 @ e2))"

text \<open>A run of votes only.\<close>

definition votes :: "(vote_env \<times> callback) list \<Rightarrow> event list" where
  "votes vs = map (\<lambda>(env, q). VoteCast env q) vs"

text \<open>A vote pressed on the card of request \<open>h\<close>.\<close>

definition on_card :: "int \<Rightarrow> vote_env \<times> callback \<Rightarrow> bool" where
  "on_card h v = (map_option fst (cb_message (snd v)) = Some h)"


section \<open>Handlers at the grain of their awaits\<close>

text \<open>
  What a handler reads from the wall clock when it goes on: the Helsinki year and
  month of \<open>monthSheetName\<close> and the text of \<open>nowHelsinkiString\<close>.
\<close>

record clock =
  month_now :: "nat \<times> nat"
  time_now :: jstr

text \<open>
  What an awaited call gives back: it returns (with the identifier of the message it
  posted, when it posts one) or it throws an error with a message.
\<close>

datatype answer = Returned int | Threw jstr

text \<open>
  A handler of \<open>callback_query\<close> that has been started and waits at one of its
  \<open>await\<close>s, with the variables it holds: the chat, the message of the request and,
  for a reject, the sender. In order: the answer to an approval, the progress card, the
  sheet of the month (\<open>getOrCreateMonthlySheet\<close> and \<open>ensureHeaders\<close>, with the title asked
  for), the appended row, the summary, the answer to a reject, the prompt. \<open>Finished\<close>
  is a handler that has returned or thrown.
\<close>

datatype task =
    AwaitApproveAnswer int int
  | AwaitProgressEdit int int
  | AwaitSheet int int jstr
  | AwaitAddRow int int
  | AwaitSummaryEdit int
  | AwaitRejectAnswer int int tg_user
  | AwaitPrompt int int tg_user
  | Finished

text \<open>The text of the progress card, the row and the text of the summary, from the request as it is when they are built.\<close>

definition progress_body :: "config \<Rightarrow> ticket_state \<Rightarrow> body" where
  "progress_body cfg st =
     ProgressCard (payload_of st)
       (show_nat (length (approvals st)) @ [47] @ show_int (REQUIRED cfg))
       (APPROVER_LIST cfg)
       (or_else (join (ascii '', '') (map mentionByProfile_prof (map snd (approvals st)))) dash)"

definition ledger_row :: "jstr \<Rightarrow> ticket_state \<Rightarrow> row" where
  "ledger_row now st = \<lparr>col_ticket = ticket st, col_violation = violation st,
     col_reason = reason st, col_amount = amount st, col_operator = operator st,
     col_status = status_approved,
     col_approvers = join (ascii '', '')
       (map (\<lambda>a. or_else (prof_username a) (prof_name a)) (map snd (approvals st))),
     col_date = now\<rparr>"

definition summary_body :: "config \<Rightarrow> jstr \<Rightarrow> ticket_state \<Rightarrow> body" where
  "summary_body cfg title st =
     ApprovedSummary (ticket st)
       (join (ascii '', '')
          (map (\<lambda>a. if prof_username a \<noteq> [] then 64 # prof_username a else prof_name a)
             (map snd (approvals st))))
       title
       (join (ascii '', '') (map (\<lambda>u. 64 # u) (not_yet_approved cfg st)))"

text \<open>
  The handler of \<open>callback_query\<close> from its first line to its first \<open>await\<close>, as it runs
  when the query is dispatched: the guards, then for an approval the voter and the
  approval are recorded, for a reject the voter and the two flags, and the query is
  answered.
\<close>

definition dispatch :: "config \<Rightarrow> callback \<Rightarrow> bot_state \<Rightarrow> bot_state \<times> effect list \<times> task" where
  "dispatch cfg q s =
     (case cb_message q of
        None \<Rightarrow> (s, [], Finished)
      | Some (msgId, chat) \<Rightarrow>
          if msgId = 0 \<or> chat = 0 then (s, [], Finished)
          else
            (case ticketsState s msgId of
               None \<Rightarrow> (s, [], Finished)
             | Some st \<Rightarrow>
                 if resolved st then (s, [], Finished)
                 else
                   let user = cb_from q;
                       userId = user_id user;
                       uname = username_of user;
                       prof = profile_of user
                   in if APPROVER_SET cfg \<noteq> {} \<and> uname \<notin> APPROVER_SET cfg
                      then (s, [AnswerCallbackQuery (query_id q) NoRights True], Finished)
                      else if userId \<in> voters st
                      then (s, [AnswerCallbackQuery (query_id q) AlreadyVoted True], Finished)
                      else if cb_data q = ascii ''approve''
                      then (s\<lparr>ticketsState := (ticketsState s)(msgId \<mapsto>
                                st\<lparr>voters := insert userId (voters st),
                                     approvals := map_set userId prof (approvals st)\<rparr>)\<rparr>,
                            [AnswerCallbackQuery (query_id q) ApprovalCounted False],
                            AwaitApproveAnswer chat msgId)
                      else if cb_data q = ascii ''reject''
                      then (s\<lparr>ticketsState := (ticketsState s)(msgId \<mapsto>
                                st\<lparr>voters := insert userId (voters st),
                                     rejected := True, resolved := True\<rparr>)\<rparr>,
                            [AnswerCallbackQuery (query_id q) AskRejectReason False],
                            AwaitRejectAnswer chat msgId user)
                      else (s, [], Finished)))"

text \<open>The \<open>catch\<close> of the quorum block: the error is logged and reported to the chat.\<close>

definition catch_ledger :: "int \<Rightarrow> jstr \<Rightarrow> bot_state \<Rightarrow> bot_state \<times> effect list \<times> task" where
  "catch_ledger chat e s = (s, [ConsoleError e, SendMessage chat (LedgerError e)], Finished)"

text \<open>
  A waiting handler goes on, from the \<open>await\<close> it stands at to the next one, with the
  answer of the awaited call. It reads the request as it is at that moment: the handler
  holds the object \<open>st\<close> that the map holds under the message, and in a run of votes no
  entry of the map is replaced. An error thrown before the \<open>try\<close> ends the handler; one
  thrown inside goes to the \<open>catch\<close>. The quorum is tested, and \<open>resolved\<close> set, only
  after the answer to the query and the progress card have both returned.
\<close>

fun resume :: "config \<Rightarrow> clock \<Rightarrow> answer \<Rightarrow> task \<Rightarrow> bot_state \<Rightarrow> bot_state \<times> effect list \<times> task" where
  "resume cfg clk (Returned n) (AwaitApproveAnswer chat msgId) s =
     (case ticketsState s msgId of
        None \<Rightarrow> (s, [], Finished)
      | Some st \<Rightarrow>
          (s, [EditMessageText chat msgId (progress_body cfg st)], AwaitProgressEdit chat msgId))"
| "resume cfg clk (Returned n) (AwaitProgressEdit chat msgId) s =
     (case ticketsState s msgId of
        None \<Rightarrow> (s, [], Finished)
      | Some st \<Rightarrow>
          if REQUIRED cfg \<le> int (length (approvals st))
          then (s\<lparr>ticketsState := (ticketsState s)(msgId \<mapsto> st\<lparr>resolved := True\<rparr>)\<rparr>,
                [GetOrCreateMonthlySheet (monthSheetName (month_now clk))],
                AwaitSheet chat msgId (monthSheetName (month_now clk)))
          else (s, [], Finished))"
| "resume cfg clk (Returned n) (AwaitSheet chat msgId title) s =
     (case ticketsState s msgId of
        None \<Rightarrow> (s, [], Finished)
      | Some st \<Rightarrow> (s, [AddRow title (ledger_row (time_now clk) st)], AwaitAddRow chat msgId))"
| "resume cfg clk (Returned n) (AwaitAddRow chat msgId) s =
     (case ticketsState s msgId of
        None \<Rightarrow> (s, [], Finished)
      | Some st \<Rightarrow>
          (s, [EditMessageText chat msgId (summary_body cfg (monthSheetName (month_now clk)) st)],
           AwaitSummaryEdit chat))"
| "resume cfg clk (Returned n) (AwaitSummaryEdit chat) s = (s, [], Finished)"
| "resume cfg clk (Returned n) (AwaitRejectAnswer chat msgId user) s =
     (case ticketsState s msgId of
        None \<Rightarrow> (s, [], Finished)
      | Some st \<Rightarrow>
          (s, [SendMessage chat (RejectPrompt (mentionByProfile user) (ticket st))],
           AwaitPrompt chat msgId user))"
| "resume cfg clk (Returned n) (AwaitPrompt chat msgId user) s =
     (case ticketsState s msgId of
        None \<Rightarrow> (s, [], Finished)
      | Some st \<Rightarrow>
          (s\<lparr>pendingComments := (pendingComments s)((chat, user_id user) \<mapsto>
               \<lparr>promptMsgId = n, ticketMsgId = msgId\<rparr>)\<rparr>,
           [EditMessageText chat msgId (RejectedAwaiting (ticket st) (mentionByProfile user))],
           Finished))"
| "resume cfg clk (Threw e) (AwaitSheet chat msgId title) s = catch_ledger chat e s"
| "resume cfg clk (Threw e) (AwaitAddRow chat msgId) s = catch_ledger chat e s"
| "resume cfg clk (Threw e) (AwaitSummaryEdit chat) s = catch_ledger chat e s"
| "resume cfg clk a t s = (s, [], Finished)"

text \<open>
  The bot with its handlers in flight, in the order of their dispatch. The transport
  hands the queries of one batch to the handler one after the other, each running to
  its first \<open>await\<close>; the handlers then go on in the order in which their calls are
  answered. A step dispatches a query or lets the handler of the given position go on.
\<close>

datatype act = Dispatch callback | Resume nat clock answer

fun act_step :: "config \<Rightarrow> act \<Rightarrow> bot_state \<times> task list \<Rightarrow> (bot_state \<times> task list) \<times> effect list" where
  "act_step cfg (Dispatch q) (s, ts) =
     (let (s', es, t) = dispatch cfg q s in ((s', ts @ [t]), es))"
| "act_step cfg (Resume i clk a) (s, ts) =
     (if i < length ts
      then (let (s', es, t) = resume cfg clk a (ts ! i) s in ((s', ts[i := t]), es))
      else ((s, ts), []))"

fun acts :: "config \<Rightarrow> act list \<Rightarrow> bot_state \<times> task list \<Rightarrow> (bot_state \<times> task list) \<times> effect list" where
  "acts cfg [] sys = (sys, [])"
| "acts cfg (a # as) sys =
     (let (sys1, e1) = act_step cfg a sys;
          (sys2, e2) = acts cfg as sys1
      in (sys2, e1 @ e2))"

text \<open>
  One handler run alone from dispatch to its end, every call of the transport
  returning and the ledger answering as the environment of the vote says.
\<close>

definition alone :: "vote_env \<Rightarrow> callback \<Rightarrow> act list" where
  "alone env q =
     [Dispatch q,
      Resume 0 \<lparr>month_now = month_at_open env, time_now = now_string env\<rparr> (Returned 0),
      Resume 0 \<lparr>month_now = month_at_open env, time_now = now_string env\<rparr> (Returned (prompt_id env)),
      Resume 0 \<lparr>month_now = month_at_open env, time_now = now_string env\<rparr>
        (case sheet_error env of None \<Rightarrow> Returned 0 | Some e \<Rightarrow> Threw e),
      Resume 0 \<lparr>month_now = month_at_summary env, time_now = now_string env\<rparr>
        (case addRow_error env of None \<Rightarrow> Returned 0 | Some e \<Rightarrow> Threw e),
      Resume 0 \<lparr>month_now = month_at_summary env, time_now = now_string env\<rparr> (Returned 0)]"

section \<open>Observations\<close>

text \<open>The guard of the allow-list, as the sender passes it.\<close>

definition may_vote :: "config \<Rightarrow> tg_user \<Rightarrow> bool" where
  "may_vote cfg u = (APPROVER_SET cfg = {} \<or> username_of u \<in> APPROVER_SET cfg)"

text \<open>The effects that open the ledger for a request, and those that append a row.\<close>

fun is_finalization :: "effect \<Rightarrow> bool" where
  "is_finalization (GetOrCreateMonthlySheet t) = True"
| "is_finalization e = False"

fun is_AddRow :: "effect \<Rightarrow> bool" where
  "is_AddRow (AddRow t r) = True"
| "is_AddRow e = False"

fun is_SetTimeout :: "effect \<Rightarrow> bool" where
  "is_SetTimeout (SetTimeout h c d) = True"
| "is_SetTimeout e = False"

text \<open>The error that ends the \<open>try\<close> of the quorum block, when the ledger raises one.\<close>

definition ledger_failure :: "vote_env \<Rightarrow> jstr option" where
  "ledger_failure env = (case sheet_error env of Some e \<Rightarrow> Some e | None \<Rightarrow> addRow_error env)"

text \<open>The label and its colon occur somewhere in the text, whatever the case of the letters.\<close>

fun label_occurs :: "jstr \<Rightarrow> jstr \<Rightarrow> bool" where
  "label_occurs label [] = ci_prefix (label @ [58]) []"
| "label_occurs label (c # cs) = (ci_prefix (label @ [58]) (c # cs) \<or> label_occurs label cs)"

text \<open>
  What every request satisfies between two votes: it is resolved exactly when it is
  rejected or has its quorum, the approvals do not pass the quorum, no key occurs twice
  among them, and every approver is a voter.
\<close>

definition vote_inv :: "config \<Rightarrow> ticket_state \<Rightarrow> bool" where
  "vote_inv cfg st =
     ((resolved st \<longleftrightarrow> rejected st \<or> REQUIRED cfg \<le> int (length (approvals st))) \<and>
      int (length (approvals st)) \<le> REQUIRED cfg \<and>
      distinct (map fst (approvals st)) \<and> fst ` set (approvals st) \<subseteq> voters st)"

section \<open>Sample configurations, requests and events\<close>

text \<open>
  Two approvers, a quorum of two, one request posted as message 7 in chat 5, and the
  buttons pressed by the approvers and by a guest without username.
\<close>

definition cfg2 :: config where
  "cfg2 = \<lparr>APPROVERS = ascii ''ann, bob'', REQUIRED_APPROVALS = 2\<rparr>"

text \<open>An empty allow-list, where anyone may vote, and a quorum of one.\<close>

definition cfg_open :: config where
  "cfg_open = \<lparr>APPROVERS = [], REQUIRED_APPROVALS = 1\<rparr>"

definition ann :: tg_user where
  "ann = \<lparr>user_id = 11, first_name = Some (ascii ''Ann''), last_name = None,
     username = Some (ascii ''ann'')\<rparr>"

definition bob :: tg_user where
  "bob = \<lparr>user_id = 12, first_name = Some (ascii ''Bob''), last_name = None,
     username = Some (ascii ''bob'')\<rparr>"

definition guest :: tg_user where
  "guest = \<lparr>user_id = 13, first_name = Some (ascii ''Guest''), last_name = None,
     username = None\<rparr>"

definition env_ok :: vote_env where
  "env_ok = \<lparr>sheet_error = None, addRow_error = None, month_at_open = (2025, 10),
     month_at_summary = (2025, 10), now_string = ascii ''03.11.2025, 10:00:00'',
     prompt_id = 900\<rparr>"

definition env_fail :: vote_env where
  "env_fail = env_ok\<lparr>addRow_error := Some (ascii ''quota'')\<rparr>"

definition card0 :: payload where
  "card0 = \<lparr>ticket = ascii ''T-1'', violation = ascii ''late'', reason = ascii ''typo'',
     amount = ascii ''50'', operator = []\<rparr>"

definition press :: "tg_user \<Rightarrow> string \<Rightarrow> callback" where
  "press u d = \<lparr>query_id = ascii ''q'', cb_message = Some (7, 5), cb_from = u, cb_data = ascii d\<rparr>"


definition s0 :: bot_state where
  "s0 = \<lparr>ticketsState = [7 \<mapsto> fresh_ticket 5 card0], pendingComments = Map.empty\<rparr>"

definition s_rejected :: bot_state where
  "s_rejected = fst (callback_query cfg2 env_ok (press ann ''reject'') s0)"

text \<open>The sample request after the first approval.\<close>

definition s_one :: bot_state where
  "s_one = fst (callback_query cfg2 env_ok (press ann ''approve'') s0)"


text \<open>Sample replies: the voter answering the prompt, another sender doing so, and the voter answering the card.\<close>

definition reply_from :: "tg_user \<Rightarrow> int \<Rightarrow> tg_message" where
  "reply_from u target = \<lparr>msg_chat = 5, msg_from = u, msg_id = 901, reply_to = Some target,
     msg_text = Some (ascii '' wrong ticket '')\<rparr>"

text \<open>
  Three submissions, as the text after the tag. The first has the lines of ticket,
  violation and amount filled (with 1, x and 5) and the line of the reason left blank.
  The second is the template with no line filled. The third is the first without its
  last line, so that the blank reason ends the text.
\<close>

definition blank_reason_text :: jstr where
  "blank_reason_text =
     label_ticket @ ascii '': 1'' @ [LF] @ label_violation @ ascii '': x'' @ [LF] @
     label_reason @ ascii '':'' @ [LF] @ label_amount @ ascii '': 5''"

definition blank_template_text :: jstr where
  "blank_template_text =
     label_ticket @ ascii '':'' @ [LF] @ label_violation @ ascii '':'' @ [LF] @
     label_reason @ ascii '':'' @ [LF] @ label_amount @ ascii '':'' @ [LF] @
     label_operator @ ascii '':''"

definition blank_last_reason_text :: jstr where
  "blank_last_reason_text =
     label_ticket @ ascii '': 1'' @ [LF] @ label_violation @ ascii '': x'' @ [LF] @
     label_reason @ ascii '':''"

text \<open>
  A sample clock, and the schedule in which a second query is dispatched before the
  first awaited call of the first handler has returned; the first handler then runs to
  its end and the second after it, every awaited call returning.
\<close>

definition clk0 :: clock where
  "clk0 = \<lparr>month_now = (2025, 10), time_now = ascii ''03.11.2025, 10:00:00''\<rparr>"

definition overlapping :: "callback \<Rightarrow> callback \<Rightarrow> act list" where
  "overlapping qa qb =
     [Dispatch qa, Dispatch qb,
      Resume 0 clk0 (Returned 0), Resume 0 clk0 (Returned 0), Resume 0 clk0 (Returned 0),
      Resume 0 clk0 (Returned 0), Resume 0 clk0 (Returned 0),
      Resume 1 clk0 (Returned 0), Resume 1 clk0 (Returned 900), Resume 1 clk0 (Returned 0),
      Resume 1 clk0 (Returned 0), Resume 1 clk0 (Returned 0)]"

section \<open>Settled requests\<close>

lemma APPROVER_LIST_cfg2: "APPROVER_LIST cfg2 = [ascii ''ann'', ascii ''bob'']"
  by (simp add: APPROVER_LIST_def cfg2_def ascii_def trim_def is_space_def)


lemma fst_run_Cons: "fst (run cfg (ev # evs) s) = fst (run cfg evs (fst (handle cfg ev s)))"
  by (simp add: split_beta)

lemma snd_run_Cons:
  "snd (run cfg (ev # evs) s) = snd (handle cfg ev s) @ snd (run cfg evs (fst (handle cfg ev s)))"
  by (simp add: split_beta)

lemma votes_Cons: "votes ((env, q) # vs) = VoteCast env q # votes vs"
  by (simp add: votes_def)

lemma votes_Nil: "votes [] = []"
  by (simp add: votes_def)

lemma empty_not_approver: "[] \<notin> APPROVER_SET cfg"
  by (simp add: APPROVER_SET_def APPROVER_LIST_def)

lemma callback_query_settled:
  "ticketsState s h = None \<or> (\<exists>st. ticketsState s h = Some st \<and> resolved st) \<Longrightarrow>
   cb_message q = Some (h, chat) \<Longrightarrow> callback_query cfg env q s = (s, [])"
  by (auto simp: callback_query_def)

lemma callback_query_keeps_settled:
  "ticketsState s h = None \<or> (\<exists>st. ticketsState s h = Some st \<and> resolved st) \<Longrightarrow>
   ticketsState (fst (callback_query cfg env q s)) h = ticketsState s h"
  by (auto simp: callback_query_def Let_def split: option.splits prod.splits)

lemma run_votes_keeps_settled:
  "ticketsState s h = None \<or> (\<exists>st. ticketsState s h = Some st \<and> resolved st) \<Longrightarrow>
   ticketsState (fst (run cfg (votes vs) s)) h = ticketsState s h"
proof (induction vs arbitrary: s)
  case Nil
  then show ?case by (simp add: votes_def)
next
  case (Cons v vs)
  obtain env q where v: "v = (env, q)" by (cases v)
  let ?s1 = "fst (callback_query cfg env q s)"
  have keep: "ticketsState ?s1 h = ticketsState s h"
    using Cons.prems by (rule callback_query_keeps_settled)
  with Cons.prems have "ticketsState ?s1 h = None \<or> (\<exists>st. ticketsState ?s1 h = Some st \<and> resolved st)"
    by simp
  then have "ticketsState (fst (run cfg (votes vs) ?s1)) h = ticketsState ?s1 h"
    by (rule Cons.IH)
  with keep show ?case
    by (simp add: v votes_Cons fst_run_Cons del: run.simps)
qed

lemma s_rejected_ticket:
  "ticketsState s_rejected 7 =
     Some ((fresh_ticket 5 card0)\<lparr>voters := {11}, resolved := True, rejected := True\<rparr>)"
  by (simp add: s_rejected_def callback_query_def press_def s0_def APPROVER_SET_def
      APPROVER_LIST_cfg2 ann_def username_of_def reject_vote_def ascii_def fresh_ticket_def Let_def)

text \<open>
  Claim C2. A vote on a request that is resolved, or on a handle with no request, is
  dropped: the handler returns the state as it was and calls nothing. Hence over any
  run of votes the request keeps its approvals, voters and flags, and stays resolved.
\<close>

theorem stale_vote_ignored:
  assumes "ticketsState s h = None \<or> (\<exists>st. ticketsState s h = Some st \<and> resolved st)"
  shows "(\<forall>env q chat. cb_message q = Some (h, chat) \<longrightarrow> callback_query cfg env q s = (s, [])) \<and>
         (\<forall>vs. ticketsState (fst (run cfg (votes vs) s)) h = ticketsState s h)"
  using assms callback_query_settled run_votes_keeps_settled by blast

theorem stale_vote_ignored_witness:
  "(ticketsState s_rejected 7 = None \<or> (\<exists>st. ticketsState s_rejected 7 = Some st \<and> resolved st)) \<and>
   callback_query cfg2 env_ok (press bob ''approve'') s_rejected = (s_rejected, []) \<and>
   callback_query cfg2 env_ok (press ann ''reject'') s_rejected = (s_rejected, []) \<and>
   ticketsState (fst (run cfg2 (votes [(env_ok, press bob ''approve''), (env_ok, press ann ''approve'')]) s_rejected)) 7
     = ticketsState s_rejected 7 \<and>
   callback_query cfg2 env_ok (press bob ''approve'') (s0\<lparr>ticketsState := Map.empty\<rparr>)
     = (s0\<lparr>ticketsState := Map.empty\<rparr>, [])"
proof -
  have h: "ticketsState s_rejected 7 = None \<or> (\<exists>st. ticketsState s_rejected 7 = Some st \<and> resolved st)"
    by (simp add: s_rejected_ticket)
  have h0: "ticketsState (s0\<lparr>ticketsState := Map.empty\<rparr>) 7 = None \<or>
      (\<exists>st. ticketsState (s0\<lparr>ticketsState := Map.empty\<rparr>) 7 = Some st \<and> resolved st)"
    by simp
  have m: "cb_message (press u d) = Some (7, 5)" for u d
    by (simp add: press_def)
  show ?thesis
    using h m stale_vote_ignored [OF h, of cfg2] stale_vote_ignored [OF h0, of cfg2] by blast
qed

section \<open>The quorum, handlers run alone\<close>

lemma map_set_new: "k \<notin> fst ` set es \<Longrightarrow> map_set k v es = es @ [(k, v)]"
  by (induction es) auto

lemma approve_vote_inv:
  assumes "vote_inv cfg st" and "\<not> resolved st" and "prof_id prof \<notin> voters st"
  shows "vote_inv cfg (fst (approve_vote cfg env qid chat msgId prof st))"
proof -
  from assms have new: "prof_id prof \<notin> fst ` set (approvals st)"
    by (auto simp: vote_inv_def)
  from assms have nr: "\<not> rejected st"
    by (simp add: vote_inv_def)
  show ?thesis
    using assms nr by (auto simp: approve_vote_def Let_def map_set_new [OF new] vote_inv_def)
qed

lemma reject_vote_inv:
  assumes "vote_inv cfg st"
  shows "vote_inv cfg (fst (reject_vote env qid chat msgId user st))"
  using assms by (auto simp: reject_vote_def vote_inv_def)

lemma callback_query_inv:
  assumes "ticketsState s h = Some st" and "vote_inv cfg st"
  shows "\<exists>st'. ticketsState (fst (callback_query cfg env q s)) h = Some st' \<and> vote_inv cfg st'"
proof (cases "fst (callback_query cfg env q s) = s")
  case True
  with assms show ?thesis by simp
next
  case False
  then obtain chat where m: "cb_message q = Some (h, chat) \<or> (\<exists>h'. h' \<noteq> h \<and> cb_message q = Some (h', chat))"
    by (cases "cb_message q") (auto simp: callback_query_def)
  show ?thesis
  proof (cases "cb_message q = Some (h, chat)")
    case True
    let ?prof = "profile_of (cb_from q)"
    from False True assms have nr: "\<not> resolved st" and nv: "user_id (cb_from q) \<notin> voters st"
      by (auto simp: callback_query_def Let_def split: if_splits)
    have a: "vote_inv cfg (fst (approve_vote cfg env (query_id q) chat h ?prof st))"
      using assms(2) nr nv by (intro approve_vote_inv) (simp_all add: profile_of_def)
    have r: "vote_inv cfg (fst (reject_vote env (query_id q) chat h (cb_from q) st))"
      using assms(2) by (rule reject_vote_inv)
    from True assms nr a r show ?thesis
      by (simp add: callback_query_def Let_def split_beta)
  next
    case other: False
    with m obtain h' where "h' \<noteq> h" and "cb_message q = Some (h', chat)" by blast
    with assms show ?thesis
      by (auto simp: callback_query_def Let_def split_beta split: option.splits)
  qed
qed

lemma run_votes_inv:
  assumes "ticketsState s h = Some st" and "vote_inv cfg st"
  shows "\<exists>st'. ticketsState (fst (run cfg (votes vs) s)) h = Some st' \<and> vote_inv cfg st'"
  using assms
proof (induction vs arbitrary: s st)
  case Nil
  then show ?case by (simp add: votes_Nil)
next
  case (Cons v vs)
  obtain env q where v: "v = (env, q)" by (cases v)
  from callback_query_inv [OF Cons.prems] obtain st1
    where "ticketsState (fst (callback_query cfg env q s)) h = Some st1" and "vote_inv cfg st1"
    by blast
  from Cons.IH [OF this] show ?case
    by (simp add: v votes_Cons fst_run_Cons del: run.simps)
qed

text \<open>
  Handlers run alone: from a request with no approval and no flag set, after any run of
  votes in which each handler returns before the next query is dispatched, the request
  is resolved exactly when it is rejected or its approvals have reached the quorum; the
  approvals never pass the quorum and no voter approves twice.
\<close>

lemma alone_quorum_at_transition:
  assumes "1 \<le> REQUIRED cfg" and "ticketsState s h = Some st" and "approvals st = []"
    and "\<not> resolved st" and "\<not> rejected st"
  shows "\<exists>st'. ticketsState (fst (run cfg (votes vs) s)) h = Some st' \<and>
           (resolved st' \<longleftrightarrow> rejected st' \<or> REQUIRED cfg \<le> int (length (approvals st'))) \<and>
           int (length (approvals st')) \<le> REQUIRED cfg \<and>
           distinct (map fst (approvals st'))"
proof -
  from assms have "vote_inv cfg st"
    by (simp add: vote_inv_def)
  from run_votes_inv [OF assms(2) this, of vs] show ?thesis
    by (auto simp: vote_inv_def)
qed

lemma REQUIRED_cfg2: "REQUIRED cfg2 = 2"
  by (simp add: REQUIRED_def cfg2_def)

lemma s0_ticket: "ticketsState s0 7 = Some (fresh_ticket 5 card0)"
  by (simp add: s0_def)

section \<open>Rejection\<close>

text \<open>
  Claim C3. A reject by a voter who may vote and has not voted, on an unresolved
  request, sets \<open>resolved\<close> and \<open>rejected\<close> in that step; after it every vote on the
  request returns the state unchanged, and no run of votes changes the request.
\<close>

theorem reject_resolves_and_blocks:
  assumes "cb_message q = Some (h, chat)" and "h \<noteq> 0" and "chat \<noteq> 0"
    and "ticketsState s h = Some st" and "\<not> resolved st"
    and "APPROVER_SET cfg = {} \<or>
         username_of (cb_from q) \<in> APPROVER_SET cfg"
    and "user_id (cb_from q) \<notin> voters st"
    and "cb_data q = ascii ''reject''"
  shows "\<exists>st'. ticketsState (fst (callback_query cfg env q s)) h = Some st' \<and>
           resolved st' \<and> rejected st' \<and> approvals st' = approvals st \<and>
           (\<forall>env' q' chat'. cb_message q' = Some (h, chat') \<longrightarrow>
              callback_query cfg env' q' (fst (callback_query cfg env q s))
                = (fst (callback_query cfg env q s), [])) \<and>
           (\<forall>vs. ticketsState (fst (run cfg (votes vs) (fst (callback_query cfg env q s)))) h = Some st')"
proof -
  let ?s' = "fst (callback_query cfg env q s)"
  let ?st' = "st\<lparr>voters := insert (user_id (cb_from q)) (voters st), rejected := True, resolved := True\<rparr>"
  have ne: "ascii ''reject'' \<noteq> ascii ''approve''"
    by (simp add: ascii_def)
  from assms ne have t: "ticketsState ?s' h = Some ?st'"
    by (auto simp: callback_query_def Let_def reject_vote_def)
  then have settled: "ticketsState ?s' h = None \<or> (\<exists>x. ticketsState ?s' h = Some x \<and> resolved x)"
    by simp
  have later: "\<forall>env' q' chat'. cb_message q' = Some (h, chat') \<longrightarrow>
      callback_query cfg env' q' ?s' = (?s', [])"
    using callback_query_settled [OF settled] by blast
  have runs: "\<forall>vs. ticketsState (fst (run cfg (votes vs) ?s')) h = Some ?st'"
    using run_votes_keeps_settled [OF settled] t by simp
  from t later runs show ?thesis
    by simp
qed

theorem reject_resolves_and_blocks_witness:
  "cb_message (press ann ''reject'') = Some (7, 5) \<and> (7::int) \<noteq> 0 \<and> (5::int) \<noteq> 0 \<and>
   ticketsState s0 7 = Some (fresh_ticket 5 card0) \<and> \<not> resolved (fresh_ticket 5 card0) \<and>
   username_of (cb_from (press ann ''reject'')) \<in> APPROVER_SET cfg2 \<and>
   user_id (cb_from (press ann ''reject'')) \<notin> voters (fresh_ticket 5 card0) \<and>
   cb_data (press ann ''reject'') = ascii ''reject'' \<and>
   (\<exists>st'. ticketsState s_rejected 7 = Some st' \<and> resolved st' \<and> rejected st' \<and>
      approvals st' = [] \<and>
      callback_query cfg2 env_ok (press bob ''approve'') s_rejected = (s_rejected, []) \<and>
      ticketsState (fst (run cfg2 (votes [(env_ok, press bob ''approve''), (env_ok, press ann ''approve'')])
         s_rejected)) 7 = Some st')"
proof -
  have m: "cb_message (press u d) = Some (7, 5)" for u d
    by (simp add: press_def)
  have nr: "\<not> resolved (fresh_ticket 5 card0)"
    by (simp add: fresh_ticket_def)
  have al: "username_of (cb_from (press ann ''reject'')) \<in> APPROVER_SET cfg2"
    by (simp add: press_def ann_def username_of_def APPROVER_SET_def APPROVER_LIST_cfg2)
  have nv: "user_id (cb_from (press ann ''reject'')) \<notin> voters (fresh_ticket 5 card0)"
    by (simp add: fresh_ticket_def)
  have d: "cb_data (press ann ''reject'') = ascii ''reject''"
    by (simp add: press_def)
  have ap: "approvals (fresh_ticket 5 card0) = []"
    by (simp add: fresh_ticket_def)
  from reject_resolves_and_blocks [where cfg = cfg2 and env = env_ok, OF m _ _ s0_ticket nr disjI2 [OF al] nv d]
  show ?thesis
    using m nr al nv d ap s0_ticket unfolding s_rejected_def [symmetric] by (simp, blast)
qed

section \<open>The allow-list\<close>

text \<open>
  Claim C9. With a non-empty allow-list, a vote on an unresolved request by a sender
  without username is answered with the missing rights alert and changes nothing: the
  missing username counts as the empty text, which the allow-list never holds.
\<close>

theorem no_username_unauthorized:
  assumes "APPROVER_SET cfg \<noteq> {}" and "cb_message q = Some (h, chat)" and "h \<noteq> 0"
    and "chat \<noteq> 0" and "ticketsState s h = Some st" and "\<not> resolved st"
    and "username (cb_from q) = None"
  shows "callback_query cfg env q s = (s, [AnswerCallbackQuery (query_id q) NoRights True])"
  using assms empty_not_approver [of cfg] by (simp add: callback_query_def username_of_def Let_def)

theorem no_username_unauthorized_witness:
  "APPROVER_SET cfg2 \<noteq> {} \<and> cb_message (press guest ''approve'') = Some (7, 5) \<and>
   (7::int) \<noteq> 0 \<and> (5::int) \<noteq> 0 \<and> ticketsState s0 7 = Some (fresh_ticket 5 card0) \<and>
   \<not> resolved (fresh_ticket 5 card0) \<and> username (cb_from (press guest ''approve'')) = None \<and>
   callback_query cfg2 env_ok (press guest ''approve'') s0
     = (s0, [AnswerCallbackQuery (ascii ''q'') NoRights True])"
proof -
  have a: "APPROVER_SET cfg2 \<noteq> {}"
    by (simp add: APPROVER_SET_def APPROVER_LIST_cfg2)
  have m: "cb_message (press guest ''approve'') = Some (7, 5)"
    by (simp add: press_def)
  have nr: "\<not> resolved (fresh_ticket 5 card0)"
    by (simp add: fresh_ticket_def)
  have u: "username (cb_from (press guest ''approve'')) = None"
    by (simp add: press_def guest_def)
  have qi: "query_id (press guest ''approve'') = ascii ''q''"
    by (simp add: press_def)
  from no_username_unauthorized [where env = env_ok, OF a m _ _ s0_ticket nr u]
  show ?thesis
    using a m nr u s0_ticket by (simp add: qi)
qed

section \<open>Finalization, handlers run alone\<close>

lemma show_nat_digit: "n < 10 \<Longrightarrow> show_nat n = [48 + n]"
  by (simp add: show_nat.simps)

lemma callback_query_approve:
  assumes "cb_message q = Some (h, chat)" and "h \<noteq> 0" and "chat \<noteq> 0"
    and "ticketsState s h = Some st" and "\<not> resolved st" and "may_vote cfg (cb_from q)"
    and "user_id (cb_from q) \<notin> voters st" and "cb_data q = ascii ''approve''"
  shows "callback_query cfg env q s =
     (s\<lparr>ticketsState := (ticketsState s)(h \<mapsto>
          fst (approve_vote cfg env (query_id q) chat h (profile_of (cb_from q)) st))\<rparr>,
      snd (approve_vote cfg env (query_id q) chat h (profile_of (cb_from q)) st))"
  using assms by (auto simp: callback_query_def may_vote_def Let_def split_beta)

lemma finalize_count: "length (filter is_finalization (finalize cfg env chat h st)) = 1"
  by (simp add: finalize_def split: option.splits)

lemma finalize_rows:
  "filter is_AddRow (finalize cfg env chat h st) =
     (case sheet_error env of
        None \<Rightarrow> [AddRow (monthSheetName (month_at_open env)) (approver_row env st)]
      | Some e \<Rightarrow> [])"
  by (simp add: finalize_def split: option.splits)

lemma approve_vote_count:
  "\<not> resolved st \<Longrightarrow>
   length (filter is_finalization (snd (approve_vote cfg env qid chat h prof st))) =
     (if resolved (fst (approve_vote cfg env qid chat h prof st)) then 1 else 0)"
  by (simp add: approve_vote_def Let_def finalize_count)

lemma approve_vote_rejected:
  "rejected (fst (approve_vote cfg env qid chat h prof st)) = rejected st"
  by (simp add: approve_vote_def Let_def)

lemma callback_query_count:
  assumes "ticketsState s h = Some st" and "\<not> resolved st" and "\<not> rejected st"
    and "map_option fst (cb_message q) = Some h"
  shows "\<exists>st'. ticketsState (fst (callback_query cfg env q s)) h = Some st' \<and>
           (resolved st' \<or> \<not> rejected st') \<and>
           length (filter is_finalization (snd (callback_query cfg env q s))) =
             (if resolved st' \<and> \<not> rejected st' then 1 else 0)"
proof -
  from assms(4) obtain chat where m: "cb_message q = Some (h, chat)"
    by (cases "cb_message q") auto
  show ?thesis
    using assms(1-3) m
    by (auto simp: callback_query_def Let_def split_beta approve_vote_count approve_vote_rejected
        reject_vote_def)
qed

lemma run_settled_on_card:
  assumes "ticketsState s h = Some st" and "resolved st" and "list_all (on_card h) vs"
  shows "run cfg (votes vs) s = (s, [])"
  using assms
proof (induction vs)
  case Nil
  then show ?case by (simp add: votes_Nil)
next
  case (Cons v vs)
  obtain env q where v: "v = (env, q)" by (cases v)
  from Cons.prems(3) v have "map_option fst (cb_message q) = Some h"
    by (simp add: on_card_def)
  then obtain chat where "cb_message q = Some (h, chat)"
    by (cases "cb_message q") auto
  with Cons.prems(1,2) have "callback_query cfg env q s = (s, [])"
    by (intro callback_query_settled) auto
  with Cons show ?case
    by (simp add: v votes_Cons)
qed

lemma run_count:
  assumes "ticketsState s h = Some st" and "\<not> resolved st" and "\<not> rejected st"
    and "list_all (on_card h) vs"
  shows "\<exists>st'. ticketsState (fst (run cfg (votes vs) s)) h = Some st' \<and>
           length (filter is_finalization (snd (run cfg (votes vs) s))) =
             (if resolved st' \<and> \<not> rejected st' then 1 else 0)"
  using assms
proof (induction vs arbitrary: s st)
  case Nil
  then show ?case by (simp add: votes_Nil)
next
  case (Cons v vs)
  obtain env q where v: "v = (env, q)" by (cases v)
  let ?s1 = "fst (callback_query cfg env q s)"
  let ?e1 = "snd (callback_query cfg env q s)"
  from Cons.prems(4) v have card: "map_option fst (cb_message q) = Some h"
    by (simp add: on_card_def)
  from Cons.prems(4) have rest: "list_all (on_card h) vs"
    by simp
  from callback_query_count [OF Cons.prems(1-3) card, of cfg env] obtain st1
    where t1: "ticketsState ?s1 h = Some st1" and ok: "resolved st1 \<or> \<not> rejected st1"
      and n1: "length (filter is_finalization ?e1) = (if resolved st1 \<and> \<not> rejected st1 then 1 else 0)"
    by blast
  show ?case
  proof (cases "resolved st1")
    case True
    from run_settled_on_card [OF t1 True rest] have "run cfg (votes vs) ?s1 = (?s1, [])" .
    with t1 n1 show ?thesis
      by (simp add: v votes_Cons fst_run_Cons snd_run_Cons del: run.simps)
  next
    case False
    with ok have nr: "\<not> rejected st1" by simp
    from Cons.IH [OF t1 False nr rest] obtain st'
      where "ticketsState (fst (run cfg (votes vs) ?s1)) h = Some st'"
        and "length (filter is_finalization (snd (run cfg (votes vs) ?s1))) =
             (if resolved st' \<and> \<not> rejected st' then 1 else 0)"
      by blast
    with n1 False show ?thesis
      by (simp add: v votes_Cons fst_run_Cons snd_run_Cons del: run.simps)
  qed
qed

lemma payload_of_votes [simp]:
  "payload_of (st\<lparr>voters := v, approvals := a\<rparr>) = payload_of st"
  by (simp add: payload_of_def)

lemma first_of_two:
  assumes "REQUIRED cfg = 2" and "ticketsState s h = Some st" and "approvals st = []"
    and "voters st = {}" and "\<not> resolved st" and "h \<noteq> 0" and "chat \<noteq> 0"
    and "cb_message qa = Some (h, chat)" and "cb_data qa = ascii ''approve''"
    and "may_vote cfg (cb_from qa)"
  shows "callback_query cfg ea qa s =
     (s\<lparr>ticketsState := (ticketsState s)(h \<mapsto>
          st\<lparr>voters := {user_id (cb_from qa)},
               approvals := [(user_id (cb_from qa), profile_of (cb_from qa))]\<rparr>)\<rparr>,
      [AnswerCallbackQuery (query_id qa) ApprovalCounted False,
       EditMessageText chat h
         (ProgressCard (payload_of st) (ascii ''1/2'') (APPROVER_LIST cfg)
            (or_else (mentionByProfile_prof (profile_of (cb_from qa))) dash))])"
proof -
  have nv: "user_id (cb_from qa) \<notin> voters st"
    using assms(4) by simp
  have "approve_vote cfg ea (query_id qa) chat h (profile_of (cb_from qa)) st =
     (st\<lparr>voters := {user_id (cb_from qa)},
          approvals := [(user_id (cb_from qa), profile_of (cb_from qa))]\<rparr>,
      [AnswerCallbackQuery (query_id qa) ApprovalCounted False,
       EditMessageText chat h
         (ProgressCard (payload_of st) (ascii ''1/2'') (APPROVER_LIST cfg)
            (or_else (mentionByProfile_prof (profile_of (cb_from qa))) dash))])"
    using assms(1,3,4)
    by (simp add: approve_vote_def Let_def profile_of_def show_nat_digit show_int_def ascii_def)
  with callback_query_approve [OF assms(8,6,7,2,5,10) nv assms(9), of ea]
  show ?thesis by simp
qed

lemma second_of_two:
  assumes "REQUIRED cfg = 2" and "ticketsState s1 h = Some st1"
    and "approvals st1 = [(ia, pa)]" and "voters st1 = {ia}" and "\<not> resolved st1"
    and "h \<noteq> 0" and "chat \<noteq> 0"
    and "cb_message qb = Some (h, chat)" and "cb_data qb = ascii ''approve''"
    and "may_vote cfg (cb_from qb)" and "ia \<noteq> user_id (cb_from qb)"
  shows "callback_query cfg eb qb s1 =
     (s1\<lparr>ticketsState := (ticketsState s1)(h \<mapsto>
          st1\<lparr>voters := {user_id (cb_from qb), ia},
                approvals := [(ia, pa), (user_id (cb_from qb), profile_of (cb_from qb))],
                resolved := True\<rparr>)\<rparr>,
      [AnswerCallbackQuery (query_id qb) ApprovalCounted False,
       EditMessageText chat h
         (ProgressCard (payload_of st1) (ascii ''2/2'') (APPROVER_LIST cfg)
            (or_else (mentionByProfile_prof pa @ ascii '', '' @
                      mentionByProfile_prof (profile_of (cb_from qb))) dash))] @
      finalize cfg eb chat h
        (st1\<lparr>voters := {user_id (cb_from qb), ia},
              approvals := [(ia, pa), (user_id (cb_from qb), profile_of (cb_from qb))],
              resolved := True\<rparr>))"
proof -
  have nv: "user_id (cb_from qb) \<notin> voters st1"
    using assms(4,11) by simp
  have "approve_vote cfg eb (query_id qb) chat h (profile_of (cb_from qb)) st1 =
     (st1\<lparr>voters := {user_id (cb_from qb), ia},
          approvals := [(ia, pa), (user_id (cb_from qb), profile_of (cb_from qb))],
          resolved := True\<rparr>,
      [AnswerCallbackQuery (query_id qb) ApprovalCounted False,
       EditMessageText chat h
         (ProgressCard (payload_of st1) (ascii ''2/2'') (APPROVER_LIST cfg)
            (or_else (mentionByProfile_prof pa @ ascii '', '' @
                      mentionByProfile_prof (profile_of (cb_from qb))) dash))] @
      finalize cfg eb chat h
        (st1\<lparr>voters := {user_id (cb_from qb), ia},
              approvals := [(ia, pa), (user_id (cb_from qb), profile_of (cb_from qb))],
              resolved := True\<rparr>))"
    using assms(1,3,4,11)
    by (simp add: approve_vote_def Let_def profile_of_def show_nat_digit show_int_def ascii_def)
  with callback_query_approve [OF assms(8,6,7,2,5,10) nv assms(9), of eb]
  show ?thesis by simp
qed

text \<open>
  Handlers run alone: with a quorum of two, a fresh request and two distinct voters who
  may vote, the first approval is answered and shown with progress 1/2 and leaves the
  request open; the second resolves it and opens the ledger once, and unless the sheet
  cannot be fetched appends one row, to the sheet named after the year and month read
  at that moment, with the approved status and both approvers in the order of their
  votes. Over any run of votes on one request, each handler returning before the next
  query is dispatched, the ledger is opened once when the request ends resolved and not
  rejected, and never otherwise.
\<close>

lemma alone_two_approvals_finalize_once:
  "(REQUIRED cfg = 2 \<and> ticketsState s h = Some st \<and> approvals st = [] \<and> voters st = {} \<and>
    \<not> resolved st \<and> \<not> rejected st \<and> h \<noteq> 0 \<and> chat \<noteq> 0 \<and>
    cb_message qa = Some (h, chat) \<and> cb_data qa = ascii ''approve'' \<and> may_vote cfg (cb_from qa) \<and>
    cb_message qb = Some (h, chat) \<and> cb_data qb = ascii ''approve'' \<and> may_vote cfg (cb_from qb) \<and>
    user_id (cb_from qa) \<noteq> user_id (cb_from qb) \<longrightarrow>
    (let r1 = callback_query cfg ea qa s; r2 = callback_query cfg eb qb (fst r1) in
       snd r1 = [AnswerCallbackQuery (query_id qa) ApprovalCounted False,
                 EditMessageText chat h
                   (ProgressCard (payload_of st) (ascii ''1/2'') (APPROVER_LIST cfg)
                      (or_else (mentionByProfile_prof (profile_of (cb_from qa))) dash))] \<and>
       (\<exists>st1. ticketsState (fst r1) h = Some st1 \<and> \<not> resolved st1 \<and> \<not> rejected st1) \<and>
       (\<exists>st2. ticketsState (fst r2) h = Some st2 \<and> resolved st2 \<and> \<not> rejected st2 \<and>
          map fst (approvals st2) = [user_id (cb_from qa), user_id (cb_from qb)]) \<and>
       length (filter is_finalization (snd r1 @ snd r2)) = 1 \<and>
       filter is_AddRow (snd r1 @ snd r2) =
         (if sheet_error eb = None
          then [AddRow (monthSheetName (month_at_open eb))
                  \<lparr>col_ticket = ticket st, col_violation = violation st, col_reason = reason st,
                     col_amount = amount st, col_operator = operator st,
                     col_status = status_approved,
                     col_approvers =
                       or_else (username_of (cb_from qa))
                         (fullName (first_name (cb_from qa)) (last_name (cb_from qa))) @
                       ascii '', '' @
                       or_else (username_of (cb_from qb))
                         (fullName (first_name (cb_from qb)) (last_name (cb_from qb))),
                     col_date = now_string eb\<rparr>]
          else []))) \<and>
   (ticketsState s h = Some st \<and> \<not> resolved st \<and> \<not> rejected st \<and> list_all (on_card h) vs \<longrightarrow>
    (\<exists>st'. ticketsState (fst (run cfg (votes vs) s)) h = Some st' \<and>
       length (filter is_finalization (snd (run cfg (votes vs) s))) =
         (if resolved st' \<and> \<not> rejected st' then 1 else 0)))"
proof (intro conjI impI)
  assume a: "REQUIRED cfg = 2 \<and> ticketsState s h = Some st \<and> approvals st = [] \<and> voters st = {} \<and>
    \<not> resolved st \<and> \<not> rejected st \<and> h \<noteq> 0 \<and> chat \<noteq> 0 \<and>
    cb_message qa = Some (h, chat) \<and> cb_data qa = ascii ''approve'' \<and> may_vote cfg (cb_from qa) \<and>
    cb_message qb = Some (h, chat) \<and> cb_data qb = ascii ''approve'' \<and> may_vote cfg (cb_from qb) \<and>
    user_id (cb_from qa) \<noteq> user_id (cb_from qb)"
  let ?st1 = "st\<lparr>voters := {user_id (cb_from qa)},
                  approvals := [(user_id (cb_from qa), profile_of (cb_from qa))]\<rparr>"
  let ?s1 = "s\<lparr>ticketsState := (ticketsState s)(h \<mapsto> ?st1)\<rparr>"
  from a have r1: "callback_query cfg ea qa s =
     (?s1, [AnswerCallbackQuery (query_id qa) ApprovalCounted False,
            EditMessageText chat h
              (ProgressCard (payload_of st) (ascii ''1/2'') (APPROVER_LIST cfg)
                 (or_else (mentionByProfile_prof (profile_of (cb_from qa))) dash))])"
    by (intro first_of_two) simp_all
  have t1: "ticketsState ?s1 h = Some ?st1"
    by simp
  from a have r2: "callback_query cfg eb qb ?s1 =
     (?s1\<lparr>ticketsState := (ticketsState ?s1)(h \<mapsto>
          ?st1\<lparr>voters := {user_id (cb_from qb), user_id (cb_from qa)},
                approvals := [(user_id (cb_from qa), profile_of (cb_from qa)),
                              (user_id (cb_from qb), profile_of (cb_from qb))],
                resolved := True\<rparr>)\<rparr>,
      [AnswerCallbackQuery (query_id qb) ApprovalCounted False,
       EditMessageText chat h
         (ProgressCard (payload_of ?st1) (ascii ''2/2'') (APPROVER_LIST cfg)
            (or_else (mentionByProfile_prof (profile_of (cb_from qa)) @ ascii '', '' @
                      mentionByProfile_prof (profile_of (cb_from qb))) dash))] @
      finalize cfg eb chat h
        (?st1\<lparr>voters := {user_id (cb_from qb), user_id (cb_from qa)},
              approvals := [(user_id (cb_from qa), profile_of (cb_from qa)),
                            (user_id (cb_from qb), profile_of (cb_from qb))],
              resolved := True\<rparr>))"
    by (intro second_of_two [OF _ t1]) simp_all
  from a show "let r1 = callback_query cfg ea qa s; r2 = callback_query cfg eb qb (fst r1) in
       snd r1 = [AnswerCallbackQuery (query_id qa) ApprovalCounted False,
                 EditMessageText chat h
                   (ProgressCard (payload_of st) (ascii ''1/2'') (APPROVER_LIST cfg)
                      (or_else (mentionByProfile_prof (profile_of (cb_from qa))) dash))] \<and>
       (\<exists>st1. ticketsState (fst r1) h = Some st1 \<and> \<not> resolved st1 \<and> \<not> rejected st1) \<and>
       (\<exists>st2. ticketsState (fst r2) h = Some st2 \<and> resolved st2 \<and> \<not> rejected st2 \<and>
          map fst (approvals st2) = [user_id (cb_from qa), user_id (cb_from qb)]) \<and>
       length (filter is_finalization (snd r1 @ snd r2)) = 1 \<and>
       filter is_AddRow (snd r1 @ snd r2) =
         (if sheet_error eb = None
          then [AddRow (monthSheetName (month_at_open eb))
                  \<lparr>col_ticket = ticket st, col_violation = violation st, col_reason = reason st,
                     col_amount = amount st, col_operator = operator st,
                     col_status = status_approved,
                     col_approvers =
                       or_else (username_of (cb_from qa))
                         (fullName (first_name (cb_from qa)) (last_name (cb_from qa))) @
                       ascii '', '' @
                       or_else (username_of (cb_from qb))
                         (fullName (first_name (cb_from qb)) (last_name (cb_from qb))),
                     col_date = now_string eb\<rparr>]
          else [])"
    unfolding Let_def r1 fst_conv snd_conv r2
    by (auto simp: finalize_count finalize_rows approver_row_def profile_of_def)
next
  assume "ticketsState s h = Some st \<and> \<not> resolved st \<and> \<not> rejected st \<and> list_all (on_card h) vs"
  then show "\<exists>st'. ticketsState (fst (run cfg (votes vs) s)) h = Some st' \<and>
       length (filter is_finalization (snd (run cfg (votes vs) s))) =
         (if resolved st' \<and> \<not> rejected st' then 1 else 0)"
    using run_count [of s h st vs cfg] by blast
qed

lemma month_2025_11: "monthSheetName (2025, 10) = ascii ''2025-11''"
  by (simp add: monthSheetName_def show_nat.simps padStart2_def ascii_def)

section \<open>A failing ledger\<close>

lemma finalize_failure:
  assumes "ledger_failure env = Some e"
  shows "last (finalize cfg env chat h st) = SendMessage chat (LedgerError e) \<and>
         ConsoleError e \<in> set (finalize cfg env chat h st) \<and>
         length (filter is_AddRow (finalize cfg env chat h st)) \<le> 1 \<and>
         length (filter is_finalization (finalize cfg env chat h st)) = 1"
  using assms by (auto simp: finalize_def ledger_failure_def split: option.splits)

lemma approve_vote_state:
  "fst (approve_vote cfg env qid chat h prof st) = fst (approve_vote cfg env' qid' chat' h' prof st)"
  by (simp add: approve_vote_def Let_def)

lemma approve_vote_quorum:
  assumes "REQUIRED cfg \<le> int (length (map_set (prof_id prof) prof (approvals st)))"
  shows "resolved (fst (approve_vote cfg env qid chat h prof st)) \<and>
         snd (approve_vote cfg env qid chat h prof st) =
           [AnswerCallbackQuery qid ApprovalCounted False,
            EditMessageText chat h
              (ProgressCard (payload_of st)
                 (show_nat (length (map_set (prof_id prof) prof (approvals st))) @ [47] @
                  show_int (REQUIRED cfg))
                 (APPROVER_LIST cfg)
                 (or_else (join (ascii '', '')
                    (map mentionByProfile_prof (map snd (map_set (prof_id prof) prof (approvals st)))))
                    dash))] @
           finalize cfg env chat h (fst (approve_vote cfg env qid chat h prof st))"
  using assms by (simp add: approve_vote_def Let_def)

lemma on_timeout_settled:
  "ticketsState s h = Some st \<Longrightarrow> resolved st \<Longrightarrow> on_timeout cfg h c s = (s, [])"
  by (simp add: on_timeout_def)

text \<open>
  Claim C5. When the approval that reaches the quorum meets a failing ledger, the state
  is the one a working ledger leaves, with the request resolved; the handler returns,
  its last call being the message that reports the error to the chat; the row is
  appended at most once in that step, and afterwards neither a vote on the request nor
  its timer calls anything, so nothing retries the append.
\<close>

theorem ledger_failure_keeps_resolved:
  assumes "cb_message q = Some (h, chat)" and "h \<noteq> 0" and "chat \<noteq> 0"
    and "ticketsState s h = Some st" and "\<not> resolved st" and "may_vote cfg (cb_from q)"
    and "user_id (cb_from q) \<notin> voters st" and "cb_data q = ascii ''approve''"
    and "REQUIRED cfg \<le>
         int (length (map_set (user_id (cb_from q)) (profile_of (cb_from q)) (approvals st)))"
    and "ledger_failure env = Some e"
  shows "fst (callback_query cfg env q s) =
           fst (callback_query cfg (env\<lparr>sheet_error := None, addRow_error := None\<rparr>) q s) \<and>
         (\<exists>st'. ticketsState (fst (callback_query cfg env q s)) h = Some st' \<and> resolved st') \<and>
         last (snd (callback_query cfg env q s)) = SendMessage chat (LedgerError e) \<and>
         ConsoleError e \<in> set (snd (callback_query cfg env q s)) \<and>
         length (filter is_AddRow (snd (callback_query cfg env q s))) \<le> 1 \<and>
         (\<forall>vs. list_all (on_card h) vs \<longrightarrow>
            run cfg (votes vs) (fst (callback_query cfg env q s)) = (fst (callback_query cfg env q s), [])) \<and>
         (\<forall>c. on_timeout cfg h c (fst (callback_query cfg env q s)) = (fst (callback_query cfg env q s), []))"
proof -
  let ?p = "profile_of (cb_from q)"
  let ?a = "approve_vote cfg env (query_id q) chat h ?p st"
  let ?s' = "fst (callback_query cfg env q s)"
  have pid: "prof_id ?p = user_id (cb_from q)"
    by (simp add: profile_of_def)
  have cq: "callback_query cfg env' q s =
      (s\<lparr>ticketsState := (ticketsState s)(h \<mapsto> fst (approve_vote cfg env' (query_id q) chat h ?p st))\<rparr>,
       snd (approve_vote cfg env' (query_id q) chat h ?p st))" for env'
    using assms(1-8) by (rule callback_query_approve)
  from assms(9) have q: "resolved (fst ?a)" and es: "snd ?a =
      [AnswerCallbackQuery (query_id q) ApprovalCounted False,
       EditMessageText chat h
         (ProgressCard (payload_of st)
            (show_nat (length (map_set (prof_id ?p) ?p (approvals st))) @ [47] @ show_int (REQUIRED cfg))
            (APPROVER_LIST cfg)
            (or_else (join (ascii '', '')
               (map mentionByProfile_prof (map snd (map_set (prof_id ?p) ?p (approvals st))))) dash))] @
      finalize cfg env chat h (fst ?a)"
    using approve_vote_quorum [of cfg ?p st env "query_id q" chat h] by (simp_all add: pid)
  note f = finalize_failure [OF assms(10), of cfg chat h "fst ?a"]
  have ne: "finalize cfg env chat h (fst ?a) \<noteq> []"
    by (simp add: finalize_def)
  have same: "?s' = fst (callback_query cfg (env\<lparr>sheet_error := None, addRow_error := None\<rparr>) q s)"
    by (simp add: cq approve_vote_state [of cfg env "query_id q" chat h ?p st
          "env\<lparr>sheet_error := None, addRow_error := None\<rparr>" "query_id q" chat h])
  have t: "ticketsState ?s' h = Some (fst ?a)"
    by (simp add: cq)
  have l: "last (snd (callback_query cfg env q s)) = SendMessage chat (LedgerError e)"
    using f ne by (simp add: cq es)
  have c: "ConsoleError e \<in> set (snd (callback_query cfg env q s))"
    using f by (simp add: cq es)
  have n: "length (filter is_AddRow (snd (callback_query cfg env q s))) \<le> 1"
    using f by (simp add: cq es)
  have r: "\<forall>vs. list_all (on_card h) vs \<longrightarrow> run cfg (votes vs) ?s' = (?s', [])"
    using run_settled_on_card [OF t q] by blast
  have tm: "\<forall>c. on_timeout cfg h c ?s' = (?s', [])"
    using on_timeout_settled [OF t q] by blast
  from same t q l c n r tm show ?thesis
    by blast
qed

lemma press_simps:
  "cb_message (press u d) = Some (7, 5)" "cb_data (press u d) = ascii d"
  "cb_from (press u d) = u" "query_id (press u d) = ascii ''q''"
  by (simp_all add: press_def)

lemma may_vote_cfg2: "may_vote cfg2 ann" "may_vote cfg2 bob"
  by (simp_all add: may_vote_def username_of_def ann_def bob_def APPROVER_SET_def APPROVER_LIST_cfg2)

lemma fresh_simps:
  "approvals (fresh_ticket c d) = []" "voters (fresh_ticket c d) = {}"
  "\<not> resolved (fresh_ticket c d)" "\<not> rejected (fresh_ticket c d)"
  "rejectComment (fresh_ticket c d) = None" "payload_of (fresh_ticket c d) = d"
  by (simp_all add: fresh_ticket_def payload_of_def)

lemma s_one_ticket:
  "ticketsState s_one 7 =
     Some ((fresh_ticket 5 card0)\<lparr>voters := {11}, approvals := [(11, profile_of ann)]\<rparr>)"
proof -
  have "callback_query cfg2 env_ok (press ann ''approve'') s0 =
     (s0\<lparr>ticketsState := (ticketsState s0)(7 \<mapsto>
          (fresh_ticket 5 card0)\<lparr>voters := {user_id (cb_from (press ann ''approve''))},
               approvals := [(user_id (cb_from (press ann ''approve'')),
                              profile_of (cb_from (press ann ''approve'')))]\<rparr>)\<rparr>,
      [AnswerCallbackQuery (query_id (press ann ''approve'')) ApprovalCounted False,
       EditMessageText 5 7
         (ProgressCard (payload_of (fresh_ticket 5 card0)) (ascii ''1/2'') (APPROVER_LIST cfg2)
            (or_else (mentionByProfile_prof (profile_of (cb_from (press ann ''approve'')))) dash))])"
    by (rule first_of_two) (simp_all add: REQUIRED_cfg2 s0_ticket fresh_simps press_simps may_vote_cfg2)
  then show ?thesis
    by (simp add: s_one_def press_simps ann_def)
qed

theorem ledger_failure_keeps_resolved_witness:
  "cb_message (press bob ''approve'') = Some (7, 5) \<and> (7::int) \<noteq> 0 \<and> (5::int) \<noteq> 0 \<and>
   ticketsState s_one 7 =
     Some ((fresh_ticket 5 card0)\<lparr>voters := {11}, approvals := [(11, profile_of ann)]\<rparr>) \<and>
   may_vote cfg2 bob \<and> cb_data (press bob ''approve'') = ascii ''approve'' \<and>
   ledger_failure env_fail = Some (ascii ''quota'') \<and>
   fst (callback_query cfg2 env_fail (press bob ''approve'') s_one) =
     fst (callback_query cfg2 (env_fail\<lparr>sheet_error := None, addRow_error := None\<rparr>)
            (press bob ''approve'') s_one) \<and>
   (\<exists>st'. ticketsState (fst (callback_query cfg2 env_fail (press bob ''approve'') s_one)) 7 = Some st' \<and>
      resolved st') \<and>
   last (snd (callback_query cfg2 env_fail (press bob ''approve'') s_one)) =
     SendMessage 5 (LedgerError (ascii ''quota'')) \<and>
   length (filter is_AddRow (snd (callback_query cfg2 env_fail (press bob ''approve'') s_one))) \<le> 1 \<and>
   run cfg2 (votes [(env_ok, press bob ''approve''), (env_ok, press ann ''approve'')])
     (fst (callback_query cfg2 env_fail (press bob ''approve'') s_one)) =
     (fst (callback_query cfg2 env_fail (press bob ''approve'') s_one), []) \<and>
   on_timeout cfg2 7 5 (fst (callback_query cfg2 env_fail (press bob ''approve'') s_one)) =
     (fst (callback_query cfg2 env_fail (press bob ''approve'') s_one), [])"
proof -
  let ?st1 = "(fresh_ticket 5 card0)\<lparr>voters := {11}, approvals := [(11, profile_of ann)]\<rparr>"
  have nr: "\<not> resolved ?st1" by (simp add: fresh_simps)
  have nv: "user_id (cb_from (press bob ''approve'')) \<notin> voters ?st1"
    by (simp add: press_simps bob_def)
  have mv: "may_vote cfg2 (cb_from (press bob ''approve''))"
    by (simp add: press_simps may_vote_cfg2)
  have qu: "REQUIRED cfg2 \<le> int (length (map_set (user_id (cb_from (press bob ''approve'')))
      (profile_of (cb_from (press bob ''approve''))) (approvals ?st1)))"
    by (simp add: REQUIRED_cfg2 press_simps bob_def)
  have lf: "ledger_failure env_fail = Some (ascii ''quota'')"
    by (simp add: ledger_failure_def env_fail_def env_ok_def)
  have oc: "list_all (on_card 7) [(env_ok, press bob ''approve''), (env_ok, press ann ''approve'')]"
    by (simp add: on_card_def press_simps)
  have z: "(7::int) \<noteq> 0" "(5::int) \<noteq> 0"
    by simp_all
  from ledger_failure_keeps_resolved [where cfg = cfg2 and env = env_fail,
      OF press_simps(1) z s_one_ticket nr mv nv press_simps(2) qu lf]
  show ?thesis
    using oc z s_one_ticket lf may_vote_cfg2(2) press_simps(1,2) [of bob "''approve''"] by blast
qed

section \<open>The reply to a rejection\<close>

lemma callback_query_reject:
  assumes "cb_message q = Some (h, chat)" and "h \<noteq> 0" and "chat \<noteq> 0"
    and "ticketsState s h = Some st" and "\<not> resolved st" and "may_vote cfg (cb_from q)"
    and "user_id (cb_from q) \<notin> voters st" and "cb_data q = ascii ''reject''"
  shows "fst (callback_query cfg env q s) =
     s\<lparr>ticketsState := (ticketsState s)(h \<mapsto>
          st\<lparr>voters := insert (user_id (cb_from q)) (voters st), rejected := True, resolved := True\<rparr>),
        pendingComments := (pendingComments s)((chat, user_id (cb_from q)) \<mapsto>
          \<lparr>promptMsgId = prompt_id env, ticketMsgId = h\<rparr>)\<rparr>"
proof -
  have "ascii ''reject'' \<noteq> ascii ''approve''"
    by (simp add: ascii_def)
  with assms show ?thesis
    by (auto simp: callback_query_def may_vote_def Let_def reject_vote_def)
qed

lemma on_message_match:
  assumes "pendingComments s (msg_chat m, user_id (msg_from m)) = Some w"
    and "reply_to m = Some (promptMsgId w)" and "ticketsState s (ticketMsgId w) = Some st"
  shows "fst (on_message m s) =
     s\<lparr>ticketsState := (ticketsState s)(ticketMsgId w \<mapsto>
          st\<lparr>rejectComment := Some (trim (case msg_text m of None \<Rightarrow> [] | Some t \<Rightarrow> t))\<rparr>),
        pendingComments := (pendingComments s)((msg_chat m, user_id (msg_from m)) := None)\<rparr>"
  using assms by (simp add: on_message_def Let_def)

lemma on_message_wrong_prompt:
  assumes "pendingComments s (msg_chat m, user_id (msg_from m)) = Some w"
    and "reply_to m \<noteq> Some (promptMsgId w)"
  shows "on_message m s = (s, [])"
  using assms by (simp add: on_message_def Let_def)

lemma on_message_no_entry:
  assumes "pendingComments s (msg_chat m, user_id (msg_from m)) = None"
  shows "on_message m s = (s, [])"
  using assms by (simp add: on_message_def Let_def)

lemma on_message_other_ticket:
  assumes "\<forall>w. pendingComments s (msg_chat m, user_id (msg_from m)) = Some w \<longrightarrow> ticketMsgId w \<noteq> t"
  shows "ticketsState (fst (on_message m s)) t = ticketsState s t"
  using assms by (auto simp: on_message_def Let_def split: option.splits)

lemma on_message_other_key:
  assumes "k \<noteq> (msg_chat m, user_id (msg_from m))"
  shows "pendingComments (fst (on_message m s)) k = pendingComments s k"
  using assms by (auto simp: on_message_def Let_def split: option.splits)


text \<open>
  Claim C6. A reject that is accepted stores, under the chat and the voter, the prompt
  and the request. A message then sets the comment of the request to its trimmed text
  and removes the entry when it comes from that voter in that chat as a reply to that
  prompt; any other message leaves the request and the entry as they were, and from
  that voter in that chat it changes nothing at all.
\<close>

theorem reply_finalizes_iff_correlated:
  assumes "cb_message q = Some (h, chat)" and "h \<noteq> 0" and "chat \<noteq> 0"
    and "ticketsState s h = Some st" and "\<not> resolved st" and "may_vote cfg (cb_from q)"
    and "user_id (cb_from q) \<notin> voters st" and "cb_data q = ascii ''reject''"
    and "\<forall>k w. pendingComments s k = Some w \<longrightarrow> ticketMsgId w \<noteq> h"
  shows "let s1 = fst (callback_query cfg env q s);
             s2 = fst (on_message m s1);
             key = (chat, user_id (cb_from q));
             st1 = st\<lparr>voters := insert (user_id (cb_from q)) (voters st),
                       rejected := True, resolved := True\<rparr>
         in pendingComments s1 key = Some \<lparr>promptMsgId = prompt_id env, ticketMsgId = h\<rparr> \<and>
            ticketsState s1 h = Some st1 \<and>
            (if msg_chat m = chat \<and> user_id (msg_from m) = user_id (cb_from q) \<and>
                reply_to m = Some (prompt_id env)
             then ticketsState s2 h =
                    Some (st1\<lparr>rejectComment :=
                       Some (trim (case msg_text m of None \<Rightarrow> [] | Some t \<Rightarrow> t))\<rparr>) \<and>
                  pendingComments s2 key = None
             else ticketsState s2 h = Some st1 \<and>
                  pendingComments s2 key = Some \<lparr>promptMsgId = prompt_id env, ticketMsgId = h\<rparr> \<and>
                  (msg_chat m = chat \<and> user_id (msg_from m) = user_id (cb_from q) \<longrightarrow>
                     on_message m s1 = (s1, [])))"
proof -
  let ?v = "user_id (cb_from q)"
  let ?key = "(chat, ?v)"
  let ?w = "\<lparr>promptMsgId = prompt_id env, ticketMsgId = h\<rparr>"
  let ?st1 = "st\<lparr>voters := insert ?v (voters st), rejected := True, resolved := True\<rparr>"
  let ?s1 = "fst (callback_query cfg env q s)"
  let ?s2 = "fst (on_message m ?s1)"
  let ?mk = "(msg_chat m, user_id (msg_from m))"
  have s1: "?s1 = s\<lparr>ticketsState := (ticketsState s)(h \<mapsto> ?st1),
      pendingComments := (pendingComments s)(?key \<mapsto> ?w)\<rparr>"
    using assms(1-8) by (rule callback_query_reject)
  have p1: "pendingComments ?s1 ?key = Some ?w" and t1: "ticketsState ?s1 h = Some ?st1"
    by (simp_all add: s1)
  show ?thesis
  proof (cases "msg_chat m = chat \<and> user_id (msg_from m) = ?v \<and> reply_to m = Some (prompt_id env)")
    case True
    then have k: "?mk = ?key" by simp
    from p1 k have a: "pendingComments ?s1 ?mk = Some ?w" by simp
    from True have b: "reply_to m = Some (promptMsgId ?w)" by simp
    from t1 have c: "ticketsState ?s1 (ticketMsgId ?w) = Some ?st1" by simp
    from on_message_match [OF a b c] k p1 t1 True show ?thesis
      by (simp add: Let_def)
  next
    case False
    have keep: "ticketsState ?s2 h = Some ?st1 \<and> pendingComments ?s2 ?key = Some ?w \<and>
        (msg_chat m = chat \<and> user_id (msg_from m) = ?v \<longrightarrow> on_message m ?s1 = (?s1, []))"
    proof (cases "?mk = ?key")
      case True
      with p1 have a: "pendingComments ?s1 ?mk = Some ?w" by simp
      from False True have "reply_to m \<noteq> Some (promptMsgId ?w)" by simp
      from on_message_wrong_prompt [OF a this] p1 t1 show ?thesis by simp
    next
      case other: False
      then have "pendingComments ?s1 ?mk = pendingComments s ?mk"
        by (auto simp: s1)
      with assms(9) have "\<forall>w. pendingComments ?s1 ?mk = Some w \<longrightarrow> ticketMsgId w \<noteq> h"
        by simp
      then have "ticketsState ?s2 h = ticketsState ?s1 h"
        by (rule on_message_other_ticket)
      moreover from other have "pendingComments ?s2 ?key = pendingComments ?s1 ?key"
        by (intro on_message_other_key) auto
      ultimately show ?thesis
        using p1 t1 other by auto
    qed
    with False p1 t1 show ?thesis
      by (simp add: Let_def)
  qed
qed

lemma reply_from_simps:
  "msg_chat (reply_from u t) = 5" "msg_from (reply_from u t) = u"
  "reply_to (reply_from u t) = Some t" "msg_text (reply_from u t) = Some (ascii '' wrong ticket '')"
  by (simp_all add: reply_from_def)

lemma trim_sample: "trim (ascii '' wrong ticket '') = ascii ''wrong ticket''"
  by (simp add: trim_def is_space_def ascii_def)

theorem reply_finalizes_iff_correlated_witness:
  "cb_message (press ann ''reject'') = Some (7, 5) \<and> (7::int) \<noteq> 0 \<and> (5::int) \<noteq> 0 \<and>
   ticketsState s0 7 = Some (fresh_ticket 5 card0) \<and> \<not> resolved (fresh_ticket 5 card0) \<and>
   may_vote cfg2 ann \<and> user_id ann \<notin> voters (fresh_ticket 5 card0) \<and>
   cb_data (press ann ''reject'') = ascii ''reject'' \<and>
   pendingComments s0 = Map.empty \<and>
   pendingComments s_rejected (5, 11) = Some \<lparr>promptMsgId = 900, ticketMsgId = 7\<rparr> \<and>
   ticketsState (fst (on_message (reply_from ann 900) s_rejected)) 7 =
     Some ((fresh_ticket 5 card0)\<lparr>voters := {11}, rejected := True, resolved := True,
        rejectComment := Some (ascii ''wrong ticket'')\<rparr>) \<and>
   pendingComments (fst (on_message (reply_from ann 900) s_rejected)) (5, 11) = None \<and>
   ticketsState (fst (on_message (reply_from bob 900) s_rejected)) 7 =
     Some ((fresh_ticket 5 card0)\<lparr>voters := {11}, rejected := True, resolved := True\<rparr>) \<and>
   pendingComments (fst (on_message (reply_from bob 900) s_rejected)) (5, 11) =
     Some \<lparr>promptMsgId = 900, ticketMsgId = 7\<rparr> \<and>
   on_message (reply_from ann 7) s_rejected = (s_rejected, [])"
proof -
  have z: "(7::int) \<noteq> 0" "(5::int) \<noteq> 0" by simp_all
  have nr: "\<not> resolved (fresh_ticket 5 card0)" by (simp add: fresh_simps)
  have mv: "may_vote cfg2 (cb_from (press ann ''reject''))" by (simp add: press_simps may_vote_cfg2)
  have nv: "user_id (cb_from (press ann ''reject'')) \<notin> voters (fresh_ticket 5 card0)"
    by (simp add: fresh_simps)
  have em: "\<forall>k w. pendingComments s0 k = Some w \<longrightarrow> ticketMsgId w \<noteq> 7"
    by (simp add: s0_def)
  have ids: "user_id ann = 11" "user_id bob = 12" "prompt_id env_ok = 900"
    by (simp_all add: ann_def bob_def env_ok_def)
  note th = reply_finalizes_iff_correlated [where cfg = cfg2 and env = env_ok,
      OF press_simps(1) z s0_ticket nr mv nv press_simps(2) em, unfolded s_rejected_def [symmetric]]
  have a: "pendingComments s_rejected (5, 11) = Some \<lparr>promptMsgId = 900, ticketMsgId = 7\<rparr> \<and>
      ticketsState (fst (on_message (reply_from ann 900) s_rejected)) 7 =
        Some ((fresh_ticket 5 card0)\<lparr>voters := {11}, rejected := True, resolved := True,
           rejectComment := Some (ascii ''wrong ticket'')\<rparr>) \<and>
      pendingComments (fst (on_message (reply_from ann 900) s_rejected)) (5, 11) = None"
    using th [of "reply_from ann 900"]
    by (simp add: Let_def press_simps reply_from_simps ids fresh_simps trim_sample)
  have b: "ticketsState (fst (on_message (reply_from bob 900) s_rejected)) 7 =
        Some ((fresh_ticket 5 card0)\<lparr>voters := {11}, rejected := True, resolved := True\<rparr>) \<and>
      pendingComments (fst (on_message (reply_from bob 900) s_rejected)) (5, 11) =
        Some \<lparr>promptMsgId = 900, ticketMsgId = 7\<rparr>"
    using th [of "reply_from bob 900"]
    by (simp add: Let_def press_simps reply_from_simps ids fresh_simps)
  have c: "on_message (reply_from ann 7) s_rejected = (s_rejected, [])"
    using th [of "reply_from ann 7"]
    by (simp add: Let_def press_simps reply_from_simps ids fresh_simps)
  from a b c show ?thesis
    using z s0_ticket nr may_vote_cfg2(1) nv press_simps(1,2) [of ann "''reject''"]
    by (simp add: press_simps s0_def)
qed

section \<open>A correlation that is overwritten\<close>










section \<open>Submissions with blank fields\<close>

lemmas parse_eval = grab_def match_here_def canonicalize_def case_table_low_def
  case_table_high_def is_space_def LF_def trim_def
  label_ticket_def label_violation_def label_reason_def label_amount_def label_operator_def

lemma grab_blank_reason:
  "grab label_ticket blank_reason_text = ascii ''1''"
  "grab label_violation blank_reason_text = ascii ''x''"
  "grab label_reason blank_reason_text = label_amount @ ascii '': 5''"
  "grab label_amount blank_reason_text = ascii ''5''"
  "grab label_operator blank_reason_text = []"
  by (simp_all add: blank_reason_text_def parse_eval ascii_def)

lemma parse_blank_reason:
  "parsePayload blank_reason_text =
     Some \<lparr>ticket = ascii ''1'', violation = ascii ''x'', reason = label_amount @ ascii '': 5'',
       amount = ascii ''5'', operator = []\<rparr>"
proof -
  have "blank_reason_text \<noteq> []"
    by (simp add: blank_reason_text_def label_ticket_def)
  then show ?thesis
    by (simp add: parsePayload_def grab_blank_reason ascii_def Let_def)
qed

lemma grab_blank_template:
  "grab label_ticket blank_template_text = label_violation @ [58]"
  "grab label_violation blank_template_text = label_reason @ [58]"
  "grab label_reason blank_template_text = label_amount @ [58]"
  "grab label_amount blank_template_text = label_operator @ [58]"
  "grab label_operator blank_template_text = []"
  by (simp_all add: blank_template_text_def parse_eval ascii_def)

lemma parse_blank_template:
  "parsePayload blank_template_text =
     Some \<lparr>ticket = label_violation @ [58], violation = label_reason @ [58],
       reason = label_amount @ [58], amount = label_operator @ [58], operator = []\<rparr>"
proof -
  have "blank_template_text \<noteq> []"
    by (simp add: blank_template_text_def label_ticket_def)
  then show ?thesis
    by (simp add: parsePayload_def grab_blank_template Let_def)
qed

lemma grab_blank_last_reason: "grab label_reason blank_last_reason_text = []"
  by (simp add: blank_last_reason_text_def parse_eval ascii_def)

lemma parse_blank_last_reason: "parsePayload blank_last_reason_text = None"
  by (simp add: parsePayload_def grab_blank_last_reason Let_def)

lemma trim_blank_reason: "trim blank_reason_text = blank_reason_text"
  by (simp add: blank_reason_text_def trim_def is_space_def label_ticket_def label_violation_def
      label_reason_def label_amount_def ascii_def LF_def)

text \<open>
  Claim C7. A submission whose reason line is blank, followed by the amount line, is
  parsed: the reason becomes the text of the amount line, and the handler posts the
  card, registers the request and starts its timer. The template with every line
  blank is parsed as well. Only when the blank line ends the text is there no result.
\<close>

theorem blank_reason_creates_request:
  "on_submission cfg 5 (Some blank_reason_text) 7 s =
     (s\<lparr>ticketsState := (ticketsState s)(7 \<mapsto> fresh_ticket 5
          \<lparr>ticket = ascii ''1'', violation = ascii ''x'', reason = label_amount @ ascii '': 5'',
             amount = ascii ''5'', operator = []\<rparr>)\<rparr>,
      [SendMessage 5 (NewCard
          \<lparr>ticket = ascii ''1'', violation = ascii ''x'', reason = label_amount @ ascii '': 5'',
             amount = ascii ''5'', operator = []\<rparr> (APPROVER_LIST cfg) (REQUIRED cfg)),
       SetTimeout 7 5 PING_TIMEOUT_MS]) \<and>
   parsePayload blank_template_text =
     Some \<lparr>ticket = label_violation @ [58], violation = label_reason @ [58],
       reason = label_amount @ [58], amount = label_operator @ [58], operator = []\<rparr> \<and>
   parsePayload blank_last_reason_text = None"
  by (simp add: on_submission_def trim_blank_reason parse_blank_reason parse_blank_template
      parse_blank_last_reason)

text \<open>The three units of U+1C82 to U+1C85 that stand for letters of the ticket label match it.\<close>

lemma tall_te_matches_label:
  "grab label_ticket ([7300, 1080, 1082, 1077, 7301] @ ascii '': 9'') = ascii ''9''"
  by (simp add: parse_eval ascii_def)

lemma on_submission_malformed:
  "parsePayload (trim (case cap of None \<Rightarrow> [] | Some t \<Rightarrow> t)) = None \<Longrightarrow>
   on_submission cfg chat cap sent_id s = (s, [SendMessage chat FormatHelp])"
  by (simp add: on_submission_def)

lemma regex_match_no_label: "\<not> label_occurs label t \<Longrightarrow> regex_match label t = None"
  by (induction t) (simp_all add: match_here_def)

lemma grab_no_label: "\<not> label_occurs label t \<Longrightarrow> grab label t = []"
  by (simp add: grab_def regex_match_no_label trim_def)

lemma missing_label_rejected:
  assumes "\<not> label_occurs label_ticket t \<or> \<not> label_occurs label_violation t \<or>
           \<not> label_occurs label_reason t"
  shows "parsePayload t = None"
  using assms by (auto simp: parsePayload_def Let_def grab_no_label)

lemma missing_label_no_request:
  assumes "\<not> label_occurs label_ticket (trim t) \<or> \<not> label_occurs label_violation (trim t) \<or>
           \<not> label_occurs label_reason (trim t)"
  shows "on_submission cfg chat (Some t) sent_id s = (s, [SendMessage chat FormatHelp])"
  using missing_label_rejected [OF assms] by (simp add: on_submission_def)

section \<open>Reminders\<close>

lemma finalize_no_timer: "filter is_SetTimeout (finalize cfg env chat h st) = []"
  by (simp add: finalize_def split: option.splits)

lemma callback_query_no_timer: "filter is_SetTimeout (snd (callback_query cfg env q s)) = []"
  by (auto simp: callback_query_def approve_vote_def reject_vote_def finalize_no_timer Let_def
      split: option.splits)

lemma on_message_no_timer: "filter is_SetTimeout (snd (on_message m s)) = []"
  by (simp add: on_message_def Let_def split: option.splits)

lemma on_timeout_effects:
  "on_timeout cfg sent_id chat s =
     (s, case ticketsState s sent_id of
           None \<Rightarrow> []
         | Some st \<Rightarrow>
             if resolved st \<or> not_yet_approved cfg st = [] then []
             else [SendMessage chat (Reminder (payload_of st) (not_yet_approved cfg st))])"
  by (simp add: on_timeout_def Let_def split: option.splits)

lemma on_submission_timer:
  "filter is_SetTimeout (snd (on_submission cfg chat cap sent_id s)) =
     (case parsePayload (trim (case cap of None \<Rightarrow> [] | Some t \<Rightarrow> t)) of
        None \<Rightarrow> []
      | Some d \<Rightarrow> [SetTimeout sent_id chat 7200000])"
  by (simp add: on_submission_def PING_TIMEOUT_MS_def split: option.splits)

text \<open>
  Claim C8, as the code has it. Posting a card starts one timer of 7200000
  milliseconds, two hours, and no other handler starts a timer. When the timer fires the
  state is left as it is; nothing is sent when the request is absent or resolved, and
  nothing either when no approver of the allow-list is still to approve (always so with
  an empty allow-list); otherwise one message is sent that names those approvers.
\<close>

theorem reminder_sent_only_to_pending_approvers:
  "filter is_SetTimeout (snd (on_submission cfg chat cap sent_id s)) =
     (case parsePayload (trim (case cap of None \<Rightarrow> [] | Some t \<Rightarrow> t)) of
        None \<Rightarrow> []
      | Some d \<Rightarrow> [SetTimeout sent_id chat 7200000]) \<and>
   filter is_SetTimeout (snd (callback_query cfg env q s)) = [] \<and>
   filter is_SetTimeout (snd (on_message m s)) = [] \<and>
   filter is_SetTimeout (snd (on_timeout cfg sent_id chat s)) = [] \<and>
   on_timeout cfg sent_id chat s =
     (s, case ticketsState s sent_id of
           None \<Rightarrow> []
         | Some st \<Rightarrow>
             if resolved st \<or> not_yet_approved cfg st = [] then []
             else [SendMessage chat (Reminder (payload_of st) (not_yet_approved cfg st))])"
  using on_submission_timer callback_query_no_timer on_message_no_timer on_timeout_effects
  by (simp split: option.splits)

text \<open>
  Against claim C8 as it is written: with an empty allow-list, the timer of a request
  that is registered and unresolved fires and nothing is sent.
\<close>

theorem reminder_not_sent_counterexample:
  "ticketsState s0 7 = Some (fresh_ticket 5 card0) \<and> \<not> resolved (fresh_ticket 5 card0) \<and>
   APPROVER_LIST cfg_open = [] \<and> on_timeout cfg_open 7 5 s0 = (s0, [])"
  by (simp add: s0_ticket fresh_simps on_timeout_def not_yet_approved_def APPROVER_LIST_def
      cfg_open_def trim_def)

section \<open>Handlers that overlap\<close>

lemma ledger_row_eq: "approver_row env st = ledger_row (now_string env) st"
  by (simp add: approver_row_def ledger_row_def)

lemma prof_id_profile_of [simp]: "prof_id (profile_of u) = user_id u"
  by (simp add: profile_of_def)

lemma reject_not_approve: "ascii ''reject'' \<noteq> ascii ''approve''"
  by (simp add: ascii_def)

lemma callback_query_alone:
  "callback_query cfg env q s =
     (fst (fst (acts cfg (alone env q) (s, []))), snd (acts cfg (alone env q) (s, [])))"
  using reject_not_approve
  by (auto simp: callback_query_def dispatch_def alone_def Let_def approve_vote_def reject_vote_def
      finalize_def catch_ledger_def progress_body_def summary_body_def ledger_row_eq
      payload_of_def not_yet_approved_def
      split: option.splits)

lemmas sample_eval = press_def s0_def fresh_ticket_def card0_def ann_def bob_def clk0_def
  username_of_def profile_of_def fullName_def List.map_filter_def ascii_def payload_of_def

lemmas grain_eval = overlapping_def dispatch_def progress_body_def ledger_row_def summary_body_def
  catch_ledger_def not_yet_approved_def mentionByProfile_def mentionByProfile_prof_def or_else_def
  monthSheetName_def padStart2_def show_nat.simps show_int_def status_approved_def dash_def Let_def

lemma cfg_open_simps: "APPROVER_LIST cfg_open = []" "APPROVER_SET cfg_open = {}" "REQUIRED cfg_open = 1"
  by (simp_all add: APPROVER_SET_def APPROVER_LIST_def REQUIRED_def cfg_open_def trim_def)

lemma cfg2_set: "APPROVER_SET cfg2 = {ascii ''ann'', ascii ''bob''}"
  by (simp add: APPROVER_SET_def APPROVER_LIST_cfg2)

text \<open>
  Claim C1. With the default configuration (no allow-list, a quorum of one), Ann's
  approval is recorded when her query is dispatched: the approvals have reached the
  quorum and the request is not resolved. Bob's approval, dispatched before the answer
  to Ann's query has returned, passes the guard and is recorded too: two approvals for a
  quorum of one, the request still not resolved. The flag is set only when Ann's
  handler goes on after its second awaited call; and when the first awaited call
  throws, her handler ends and the request stays unresolved with its quorum reached.
\<close>

theorem quorum_reached_before_resolved:
  "REQUIRED cfg_open = 1 \<and> \<not> resolved (fresh_ticket 5 card0) \<and>
   acts cfg_open [Dispatch (press ann ''approve'')] (s0, []) =
     ((s0\<lparr>ticketsState := [7 \<mapsto> (fresh_ticket 5 card0)
           \<lparr>voters := {11}, approvals := [(11, profile_of ann)]\<rparr>]\<rparr>,
       [AwaitApproveAnswer 5 7]),
      [AnswerCallbackQuery (ascii ''q'') ApprovalCounted False]) \<and>
   acts cfg_open [Dispatch (press ann ''approve''), Dispatch (press bob ''approve'')] (s0, []) =
     ((s0\<lparr>ticketsState := [7 \<mapsto> (fresh_ticket 5 card0)
           \<lparr>voters := {12, 11}, approvals := [(11, profile_of ann), (12, profile_of bob)]\<rparr>]\<rparr>,
       [AwaitApproveAnswer 5 7, AwaitApproveAnswer 5 7]),
      [AnswerCallbackQuery (ascii ''q'') ApprovalCounted False,
       AnswerCallbackQuery (ascii ''q'') ApprovalCounted False]) \<and>
   fst (acts cfg_open [Dispatch (press ann ''approve''), Dispatch (press bob ''approve''),
          Resume 0 clk0 (Returned 0), Resume 0 clk0 (Returned 0)] (s0, [])) =
     (s0\<lparr>ticketsState := [7 \<mapsto> (fresh_ticket 5 card0)
          \<lparr>voters := {12, 11}, approvals := [(11, profile_of ann), (12, profile_of bob)],
            resolved := True\<rparr>]\<rparr>,
      [AwaitSheet 5 7 (ascii ''2025-11''), AwaitApproveAnswer 5 7]) \<and>
   acts cfg_open [Dispatch (press ann ''approve''), Resume 0 clk0 (Threw e)] (s0, []) =
     ((s0\<lparr>ticketsState := [7 \<mapsto> (fresh_ticket 5 card0)
           \<lparr>voters := {11}, approvals := [(11, profile_of ann)]\<rparr>]\<rparr>,
       [Finished]),
      [AnswerCallbackQuery (ascii ''q'') ApprovalCounted False])"
  by (simp add: cfg_open_simps sample_eval grain_eval insert_commute)


text \<open>
  Claim C4. With a quorum of two and the approvers Ann and Bob, Bob's approval is
  dispatched before the answer to Ann's query has returned, and then each handler runs
  on with every call returning. Both progress cards read 2/2 (none reads 1/2), both
  handlers find the quorum, and each opens the ledger and appends the row: two rows
  for one request. With a quorum of one, a reject dispatched in the same way after an
  approval leaves the request rejected, and the approved row is appended all the same.
\<close>

theorem overlapping_approvals_append_twice:
  "snd (acts cfg2 (overlapping (press ann ''approve'') (press bob ''approve'')) (s0, [])) =
     [AnswerCallbackQuery (ascii ''q'') ApprovalCounted False,
      AnswerCallbackQuery (ascii ''q'') ApprovalCounted False,
      EditMessageText 5 7
        (ProgressCard card0 (ascii ''2/2'') [ascii ''ann'', ascii ''bob''] (ascii ''@ann, @bob'')),
      GetOrCreateMonthlySheet (ascii ''2025-11''),
      AddRow (ascii ''2025-11'')
        \<lparr>col_ticket = ascii ''T-1'', col_violation = ascii ''late'', col_reason = ascii ''typo'',
           col_amount = ascii ''50'', col_operator = [], col_status = status_approved,
           col_approvers = ascii ''ann, bob'', col_date = ascii ''03.11.2025, 10:00:00''\<rparr>,
      EditMessageText 5 7
        (ApprovedSummary (ascii ''T-1'') (ascii ''@ann, @bob'') (ascii ''2025-11'') []),
      EditMessageText 5 7
        (ProgressCard card0 (ascii ''2/2'') [ascii ''ann'', ascii ''bob''] (ascii ''@ann, @bob'')),
      GetOrCreateMonthlySheet (ascii ''2025-11''),
      AddRow (ascii ''2025-11'')
        \<lparr>col_ticket = ascii ''T-1'', col_violation = ascii ''late'', col_reason = ascii ''typo'',
           col_amount = ascii ''50'', col_operator = [], col_status = status_approved,
           col_approvers = ascii ''ann, bob'', col_date = ascii ''03.11.2025, 10:00:00''\<rparr>,
      EditMessageText 5 7
        (ApprovedSummary (ascii ''T-1'') (ascii ''@ann, @bob'') (ascii ''2025-11'') [])] \<and>
   ticketsState (fst (fst (acts cfg_open (overlapping (press ann ''approve'') (press bob ''reject''))
       (s0, [])))) 7 =
     Some ((fresh_ticket 5 card0)\<lparr>voters := {12, 11}, approvals := [(11, profile_of ann)],
        rejected := True, resolved := True\<rparr>) \<and>
   filter is_AddRow
     (snd (acts cfg_open (overlapping (press ann ''approve'') (press bob ''reject'')) (s0, []))) =
     [AddRow (ascii ''2025-11'')
        \<lparr>col_ticket = ascii ''T-1'', col_violation = ascii ''late'', col_reason = ascii ''typo'',
           col_amount = ascii ''50'', col_operator = [], col_status = status_approved,
           col_approvers = ascii ''ann'', col_date = ascii ''03.11.2025, 10:00:00''\<rparr>]"
  by (simp add: cfg_open_simps cfg2_set APPROVER_LIST_cfg2 REQUIRED_cfg2 sample_eval grain_eval
      insert_commute)

end
